theory Spec2Isabelle
  imports Main "HOL-Library.Word"
begin

section \<open>The sync engine of pegnetd (node/sync.go)\<close>

text \<open>
  The functions of \<^verbatim>\<open>node/sync.go\<close> are embedded one by one. Everything they call
  in other packages (the store \<^verbatim>\<open>d.Pegnet\<close>, the factom client, the grader, the
  \<^verbatim>\<open>fat2\<close> parser and validator, \<^verbatim>\<open>conversions.Convert\<close>, \<^verbatim>\<open>database/sql\<close>)
  is a field of the receiver \<open>d\<close>, so that a theorem about a function of this file holds
  for every behaviour of its collaborators. The type variable \<open>'s\<close> is the content
  of the open \<^verbatim>\<open>*sql.Tx\<close>; a function that mutates it in Go returns it here, also
  next to an error, since Go undoes nothing by itself: only the caller's
  \<^verbatim>\<open>tx.Rollback()\<close> does.
\<close>

subsection \<open>Data\<close>

type_synonym u8 = "8 word"
type_synonym u32 = "32 word"
type_synonym u64 = "64 word"
type_synonym i64 = "64 word" \<comment> \<open>an int64, the same 64 bits read with \<open>sint\<close>\<close>

type_synonym Bytes32 = "u8 list" \<comment> \<open>\<^verbatim>\<open>factom.Bytes32\<close>, a \<^verbatim>\<open>[32]byte\<close>\<close>
type_synonym FAAddress = "u8 list" \<comment> \<open>\<^verbatim>\<open>factom.FAAddress\<close>, a \<^verbatim>\<open>[32]byte\<close>\<close>

text \<open>
  \<^verbatim>\<open>fat2.PTicker\<close>. Its declaration is not in this file; \<^verbatim>\<open>sync.go\<close> names two of
  its values, \<^verbatim>\<open>PTickerFCT\<close> (the pegged pFCT) and \<^verbatim>\<open>PTickerPEG\<close>. The other assets
  of the fixed list are kept by name.
\<close>

datatype PTicker = PTickerPEG | PTickerFCT | PTickerAsset string

text \<open>
  The errors. \<^verbatim>\<open>pegnet.InsufficientBalanceErr\<close> and \<^verbatim>\<open>context.Canceled\<close> are the two
  the file names; \<open>Errorf\<close> is a \<^verbatim>\<open>fmt.Errorf\<close> of this file; \<open>Fault\<close> is any error
  a collaborator returns (a store write that fails, a fetch that fails); \<open>Panic\<close> is
  a run-time panic of Go (a nil pointer read), which ends the call.
\<close>

datatype error = InsufficientBalanceErr | Canceled | Errorf string | Fault string | Panic string

record AddressAmountTuple =
  Address :: FAAddress
  Amount :: u64

record TypedAddressAmountTuple = AddressAmountTuple +
  Type :: PTicker

text \<open>
  \<^verbatim>\<open>fat2.Transaction\<close>: an input and either a conversion target or a list of transfers.
  \<open>Conversion = None\<close> is the transaction that names no target.
\<close>

record Transaction =
  Input :: TypedAddressAmountTuple
  Transfers :: "AddressAmountTuple list"
  Conversion :: "PTicker option"

record Entry =
  EntryHash :: Bytes32
  Content :: "u8 list"

text \<open>
  \<^verbatim>\<open>fat2.TransactionBatch\<close> embeds the entry it was parsed from; \<^verbatim>\<open>txBatch.Hash\<close> is
  that entry's hash.
\<close>

record TransactionBatch =
  BatchEntry :: Entry
  Transactions :: "Transaction list"

definition Hash :: "TransactionBatch \<Rightarrow> Bytes32" where
  "Hash txBatch = EntryHash (BatchEntry txBatch)"

definition NewTransactionBatch :: "Entry \<Rightarrow> TransactionBatch" where
  "NewTransactionBatch entry = \<lparr>BatchEntry = entry, Transactions = []\<rparr>"

text \<open>
  Modelled from the spec: \<^verbatim>\<open>fat2.Transaction.IsConversion\<close> and
  \<^verbatim>\<open>fat2.TransactionBatch.HasConversions\<close> are not in this file. The spec: a transaction
  is either a conversion or a transfer set, and \<^verbatim>\<open>HasConversions\<close> holds when some
  transaction of the batch is a conversion.
\<close>

definition IsConversion :: "Transaction \<Rightarrow> bool" where
  "IsConversion tx = (case Conversion tx of None \<Rightarrow> False | Some target \<Rightarrow> True)"

definition HasConversions :: "TransactionBatch \<Rightarrow> bool" where
  "HasConversions txBatch = list_ex IsConversion (Transactions txBatch)"

text \<open>
  \<^verbatim>\<open>map[fat2.PTicker]uint64\<close>: an association list; \<open>None\<close> is the nil map. Reading
  a key that is absent gives 0, as in Go.
\<close>

type_synonym Rates = "(PTicker \<times> u64) list"

definition rate_of :: "Rates \<Rightarrow> PTicker \<Rightarrow> u64" where
  "rate_of rates ticker = (case map_of rates ticker of None \<Rightarrow> 0 | Some v \<Rightarrow> v)"

record EBlock =
  ChainID :: Bytes32
  EBlock_Height :: u32
  KeyMR :: Bytes32
  Entries :: "Entry list"

record DBlock =
  DBlock_Height :: u32
  EBlocks :: "EBlock list"

text \<open>\<^verbatim>\<open>dblock.EBlock(chainID)\<close>: the entry block of that chain, or nil.\<close>

definition DBlock_EBlock :: "DBlock \<Rightarrow> Bytes32 \<Rightarrow> EBlock option" where
  "DBlock_EBlock dblock chainID = find (\<lambda>eb. ChainID eb = chainID) (EBlocks dblock)"

text \<open>\<^verbatim>\<open>factom.FactoidTransactionIO\<close>: its address is a pointer, \<open>None\<close> when nil.\<close>

record FactoidTransactionIO =
  IO_Amount :: u64
  IO_Address :: "Bytes32 option"

record FactoidTransaction =
  FCTInputs :: "FactoidTransactionIO list"
  FCTOutputs :: "FactoidTransactionIO list"
  ECOutputs :: "FactoidTransactionIO list"

record FBlock =
  FBlock_Height :: u32
  FBlock_Transactions :: "FactoidTransaction list"

text \<open>
  What \<^verbatim>\<open>sync.go\<close> reads of a graded block: its winners, and of each winner the OPR's
  address, height and ordered asset values, the entry hash and the payout.
\<close>

record GradingOPR =
  OPR_Address :: string
  OPR_Height :: "32 word"
  OPR_Assets :: Rates
  OPR_EntryHash :: "u8 list"
  Payout :: i64

record GradedBlock =
  Winners :: "GradingOPR list"

record BlockSync =
  Synced :: u32

subsection \<open>The collaborators\<close>

text \<open>
  The store, \<^verbatim>\<open>d.Pegnet\<close>. Every method that takes the \<^verbatim>\<open>*sql.Tx\<close> is a function
  of its content; one that returns an error returns no new content (a statement that
  fails changes nothing). \<^verbatim>\<open>SubFromBalance\<close> returns the address id and the
  recoverable \<^verbatim>\<open>txErr\<close>. \<^verbatim>\<open>SelectTransactionBatchesInHoldingAtHeight\<close> is called
  without the transaction: it reads through the store's own handle, so it is a
  function of the height alone while a block is processed.
\<close>

record 's Pegnet =
  InsertSynced :: "'s \<Rightarrow> BlockSync \<Rightarrow> error + 's"
  InsertGradeBlock :: "'s \<Rightarrow> EBlock option \<Rightarrow> GradedBlock \<Rightarrow> error + 's"
  InsertRate :: "'s \<Rightarrow> u32 \<Rightarrow> Rates \<Rightarrow> error + 's"
  SelectMostRecentRatesBeforeHeight :: "'s \<Rightarrow> u32 \<Rightarrow> error + (Rates option \<times> u32)"
  SelectPendingRates :: "'s \<Rightarrow> u32 \<Rightarrow> error + Rates option"
  SelectTransactionBatchesInHoldingAtHeight :: "u64 \<Rightarrow> error + TransactionBatch list"
  InsertTransactionBatchHolding :: "'s \<Rightarrow> TransactionBatch \<Rightarrow> u64 \<Rightarrow> Bytes32 \<Rightarrow> error + 's"
  IsReplayTransaction :: "'s \<Rightarrow> Bytes32 \<Rightarrow> error + bool"
  SubFromBalance :: "'s \<Rightarrow> FAAddress \<Rightarrow> PTicker \<Rightarrow> u64 \<Rightarrow> error + ('s \<times> i64 \<times> error option)"
  AddToBalance :: "'s \<Rightarrow> FAAddress \<Rightarrow> PTicker \<Rightarrow> u64 \<Rightarrow> error + ('s \<times> i64)"
  InsertTransactionRelation :: "'s \<Rightarrow> i64 \<Rightarrow> Bytes32 \<Rightarrow> u64 \<Rightarrow> bool \<Rightarrow> bool \<Rightarrow> error + 's"

text \<open>
  The receiver \<^verbatim>\<open>d *Pegnetd\<close>: the store, the in-memory cursor \<^verbatim>\<open>d.Sync\<close>, and what
  the file calls outside itself. \<^verbatim>\<open>multiFetch\<close> fans out over eight goroutines; its
  scheduling is not modelled and what it returns is taken as given. \<open>TracefTxApplied\<close>
  is the trace line \<^verbatim>\<open>"tx applied"\<close> with its fields height, entryhash, conversion and
  txs. \<open>BeginTx\<close>, \<open>Commit\<close> and \<open>Rollback\<close> are those of \<^verbatim>\<open>database/sql\<close>.
\<close>

record 's Pegnetd =
  Pegnet :: "'s Pegnet"
  Sync :: BlockSync
  OPRChain :: Bytes32
  TransactionChain :: Bytes32
  BurnRCD :: Bytes32
  DBlock_Get :: "u32 \<Rightarrow> error + DBlock"
  multiFetch :: "EBlock \<Rightarrow> error + EBlock"
  FBlock_Get :: "u32 \<Rightarrow> error + FBlock"
  FactoidTransaction_Get :: "FactoidTransaction \<Rightarrow> error + FactoidTransaction"
  Grade :: "bool \<Rightarrow> EBlock option \<Rightarrow> error + GradedBlock option"
  UnmarshalEntry :: "TransactionBatch \<Rightarrow> error + TransactionBatch"
  Validate :: "TransactionBatch \<Rightarrow> error option"
  Convert :: "i64 \<Rightarrow> u64 \<Rightarrow> u64 \<Rightarrow> error + i64"
  NewFAAddress :: "string \<Rightarrow> error + FAAddress"
  TracefTxApplied :: "'s \<Rightarrow> u32 \<Rightarrow> Bytes32 \<Rightarrow> bool \<Rightarrow> nat \<Rightarrow> 's"
  BeginTx :: "error + 's"
  Commit :: "'s \<Rightarrow> error option"
  Rollback :: "'s \<Rightarrow> error option"

text \<open>\<^verbatim>\<open>isDone(ctx)\<close>: the context is its cancellation flag, read as it stands during one call.\<close>

definition isDone :: "bool \<Rightarrow> bool" where
  "isDone ctx = ctx"

definition GetCurrentSync :: "'s Pegnetd \<Rightarrow> u32" where
  "GetCurrentSync d = Synced (Sync d)"

subsection \<open>Loops\<close>

text \<open>
  \<^verbatim>\<open>for i, x := range xs { ... }\<close> with a body that may return from the enclosing
  function: the body gives the new content and \<open>Some r\<close> when it executed
  \<^verbatim>\<open>return r\<close>, \<open>None\<close> when it reached its end or a \<^verbatim>\<open>continue\<close>. The loop stops at the
  first \<open>Some r\<close>; \<open>None\<close> from the loop says that it ran to its end.
\<close>

fun range_loop :: "(nat \<Rightarrow> 'a \<Rightarrow> 's \<Rightarrow> 's \<times> 'r option) \<Rightarrow> nat \<Rightarrow> 'a list \<Rightarrow> 's \<Rightarrow> 's \<times> 'r option" where
  "range_loop body i [] s = (s, None)"
| "range_loop body i (x # xs) s =
    (case body i x s of
       (s1, Some r) \<Rightarrow> (s1, Some r)
     | (s1, None) \<Rightarrow> range_loop body (Suc i) xs s1)"

subsection \<open>applyTransactionBatch\<close>

text \<open>
  The body of the loop over \<^verbatim>\<open>tx.Transfers\<close> (lines 367-377). A result \<open>Some (Some err)\<close>
  is \<^verbatim>\<open>return err\<close>, \<open>Some None\<close> is \<^verbatim>\<open>return nil\<close>.
\<close>

definition applyTransactionBatch_transfer ::
  "'s Pegnetd \<Rightarrow> TransactionBatch \<Rightarrow> nat \<Rightarrow> Transaction \<Rightarrow> nat \<Rightarrow> AddressAmountTuple \<Rightarrow> 's
    \<Rightarrow> 's \<times> error option option" where
  "applyTransactionBatch_transfer d txBatch txIndex tx i transfer sqlTx =
    (case AddToBalance (Pegnet d) sqlTx (Address transfer) (Type (Input tx)) (Amount transfer) of
       Inl err \<Rightarrow> (sqlTx, Some (Some err))
     | Inr (sqlTx1, outputAdrID) \<Rightarrow>
        (case InsertTransactionRelation (Pegnet d) sqlTx1 outputAdrID (Hash txBatch)
                (word_of_nat txIndex) True False of
           Inl err \<Rightarrow> (sqlTx1, Some (Some err))
         | Inr sqlTx2 \<Rightarrow> (sqlTx2, None)))"

text \<open>The body of the loop over \<^verbatim>\<open>txBatch.Transactions\<close> (lines 338-379).\<close>

definition applyTransactionBatch_tx ::
  "'s Pegnetd \<Rightarrow> TransactionBatch \<Rightarrow> Rates option \<Rightarrow> nat \<Rightarrow> Transaction \<Rightarrow> 's
    \<Rightarrow> 's \<times> error option option" where
  "applyTransactionBatch_tx d txBatch rates txIndex tx sqlTx =
    (case SubFromBalance (Pegnet d) sqlTx (Address (Input tx)) (Type (Input tx)) (Amount (Input tx)) of
       Inl err \<Rightarrow> (sqlTx, Some (Some err))
     | Inr (sqlTx1, inputAdrID, Some txErr) \<Rightarrow> (sqlTx1, Some (Some txErr))
     | Inr (sqlTx1, inputAdrID, None) \<Rightarrow>
        (case InsertTransactionRelation (Pegnet d) sqlTx1 inputAdrID (Hash txBatch)
                (word_of_nat txIndex) False (IsConversion tx) of
           Inl err \<Rightarrow> (sqlTx1, Some (Some err))
         | Inr sqlTx2 \<Rightarrow>
            (case Conversion tx of
               Some target \<Rightarrow>
                (case rates of
                   None \<Rightarrow> (sqlTx2, Some (Some (Errorf
                     ''rates must exist if TransactionBatch contains conversions'')))
                 | Some r \<Rightarrow>
                    if length r = 0 then (sqlTx2, Some (Some (Errorf
                      ''rates must exist if TransactionBatch contains conversions'')))
                    else if rate_of r (Type (Input tx)) = 0 \<or> rate_of r target = 0
                    then (sqlTx2, Some None)
                    else
                      (case Convert d (Amount (Input tx)) (rate_of r (Type (Input tx)))
                              (rate_of r target) of
                         Inl err \<Rightarrow> (sqlTx2, Some (Some err))
                       | Inr outputAmount \<Rightarrow>
                          (case AddToBalance (Pegnet d) sqlTx2 (Address (Input tx)) target
                                  outputAmount of
                             Inl err \<Rightarrow> (sqlTx2, Some (Some err))
                           | Inr (sqlTx3, adrID) \<Rightarrow> (sqlTx3, None))))
             | None \<Rightarrow>
                range_loop (applyTransactionBatch_transfer d txBatch txIndex tx) 0 (Transfers tx)
                  sqlTx2)))"

text \<open>
  \<^verbatim>\<open>applyTransactionBatch\<close> (lines 337-387): the loop, then the trace line and
  \<^verbatim>\<open>return nil\<close>.
\<close>

definition applyTransactionBatch ::
  "'s Pegnetd \<Rightarrow> 's \<Rightarrow> TransactionBatch \<Rightarrow> Rates option \<Rightarrow> u32 \<Rightarrow> 's \<times> error option" where
  "applyTransactionBatch d sqlTx txBatch rates currentHeight =
    (case range_loop (applyTransactionBatch_tx d txBatch rates) 0 (Transactions txBatch) sqlTx of
       (sqlTx1, Some r) \<Rightarrow> (sqlTx1, r)
     | (sqlTx1, None) \<Rightarrow>
        (TracefTxApplied d sqlTx1 currentHeight (Hash txBatch) (HasConversions txBatch)
           (length (Transactions txBatch)), None))"

subsection \<open>ApplyTransactionBatchesInHolding\<close>

text \<open>The body of the loop over the batches held at one height (lines 269-285).\<close>

definition ApplyTransactionBatchesInHolding_batch ::
  "'s Pegnetd \<Rightarrow> Rates option \<Rightarrow> u32 \<Rightarrow> nat \<Rightarrow> TransactionBatch \<Rightarrow> 's
    \<Rightarrow> 's \<times> error option option" where
  "ApplyTransactionBatchesInHolding_batch d rates currentHeight n txBatch sqlTx =
    (case Validate d txBatch of
       Some err \<Rightarrow> (sqlTx, None)
     | None \<Rightarrow>
        (case IsReplayTransaction (Pegnet d) sqlTx (Hash txBatch) of
           Inl err \<Rightarrow> (sqlTx, Some (Some err))
         | Inr isReplay \<Rightarrow>
            if isReplay then (sqlTx, None)
            else
              (case applyTransactionBatch d sqlTx txBatch rates currentHeight of
                 (sqlTx1, err) \<Rightarrow>
                  if err \<noteq> None \<and> err \<noteq> Some InsufficientBalanceErr
                  then (sqlTx1, Some None)
                  else (sqlTx1, None))))"

text \<open>
  The loop \<^verbatim>\<open>for i := height; i < currentHeight; i++\<close> (lines 264-286) on uint32, from
  \<open>i\<close>.
\<close>

function ApplyTransactionBatchesInHolding_heights ::
  "'s Pegnetd \<Rightarrow> 's \<Rightarrow> Rates option \<Rightarrow> u32 \<Rightarrow> u32 \<Rightarrow> 's \<times> error option" where
  "ApplyTransactionBatchesInHolding_heights d sqlTx rates currentHeight i =
    (if i < currentHeight then
       (case SelectTransactionBatchesInHoldingAtHeight (Pegnet d) (ucast i) of
          Inl err \<Rightarrow> (sqlTx, Some err)
        | Inr txBatches \<Rightarrow>
           (case range_loop (ApplyTransactionBatchesInHolding_batch d rates currentHeight) 0
                   txBatches sqlTx of
              (sqlTx1, Some r) \<Rightarrow> (sqlTx1, r)
            | (sqlTx1, None) \<Rightarrow>
               ApplyTransactionBatchesInHolding_heights d sqlTx1 rates currentHeight (i + 1)))
     else (sqlTx, None))"
  by pat_completeness auto
termination
proof (relation "measure (\<lambda>(d, sqlTx, rates, currentHeight, i). unat currentHeight - unat i)")
  show "wf (measure (\<lambda>(d :: 's Pegnetd, sqlTx :: 's, rates :: Rates option,
    currentHeight :: u32, i :: u32). unat currentHeight - unat i))"
    by simp
next
  fix d :: "'s Pegnetd" and sqlTx sqlTx1 :: 's and rates :: "Rates option"
    and currentHeight i :: u32
  assume "i < currentHeight"
  then have below: "unat i < unat currentHeight"
    by (simp add: word_less_nat_alt)
  moreover have "unat currentHeight < 2 ^ 32"
    using unsigned_less [of currentHeight] by simp
  ultimately have "unat i + 1 < 2 ^ 32"
    by simp
  then have "unat (i + 1) = Suc (unat i)"
    by (simp add: unat_word_ariths)
  with below show "((d, sqlTx1, rates, currentHeight, i + 1), (d, sqlTx, rates, currentHeight, i))
    \<in> measure (\<lambda>(d, sqlTx, rates, currentHeight, i). unat currentHeight - unat i)"
    by simp
qed

declare ApplyTransactionBatchesInHolding_heights.simps [simp del]

text \<open>\<^verbatim>\<open>ApplyTransactionBatchesInHolding\<close> (lines 253-288).\<close>

definition ApplyTransactionBatchesInHolding ::
  "'s Pegnetd \<Rightarrow> bool \<Rightarrow> 's \<Rightarrow> u32 \<Rightarrow> 's \<times> error option" where
  "ApplyTransactionBatchesInHolding d ctx sqlTx currentHeight =
    (case SelectMostRecentRatesBeforeHeight (Pegnet d) sqlTx currentHeight of
       Inl err \<Rightarrow> (sqlTx, Some err)
     | Inr (unused, height) \<Rightarrow>
        (case SelectPendingRates (Pegnet d) sqlTx currentHeight of
           Inl err \<Rightarrow> (sqlTx, Some err)
         | Inr rates \<Rightarrow>
            ApplyTransactionBatchesInHolding_heights d sqlTx rates currentHeight height))"

subsection \<open>ApplyTransactionBlock\<close>

text \<open>
  The body of the loop over \<^verbatim>\<open>eblock.Entries\<close> (lines 294-331); its only return is
  \<^verbatim>\<open>return err\<close>.
\<close>

definition ApplyTransactionBlock_entry ::
  "'s Pegnetd \<Rightarrow> EBlock \<Rightarrow> nat \<Rightarrow> Entry \<Rightarrow> 's \<Rightarrow> 's \<times> error option" where
  "ApplyTransactionBlock_entry d eblock n entry sqlTx =
    (case UnmarshalEntry d (NewTransactionBatch entry) of
       Inl err \<Rightarrow> (sqlTx, None)
     | Inr txBatch \<Rightarrow>
        (case Validate d txBatch of
           Some err \<Rightarrow> (sqlTx, None)
         | None \<Rightarrow>
            (case IsReplayTransaction (Pegnet d) sqlTx (Hash txBatch) of
               Inl err \<Rightarrow> (sqlTx, Some err)
             | Inr isReplay \<Rightarrow>
                if isReplay then (sqlTx, None)
                else if HasConversions txBatch then
                  (case InsertTransactionBatchHolding (Pegnet d) sqlTx txBatch
                          (ucast (EBlock_Height eblock)) (KeyMR eblock) of
                     Inl err \<Rightarrow> (sqlTx, Some err)
                   | Inr sqlTx1 \<Rightarrow> (sqlTx1, None))
                else
                  (case applyTransactionBatch d sqlTx txBatch None (EBlock_Height eblock) of
                     (sqlTx1, err) \<Rightarrow>
                      if err \<noteq> None \<and> err \<noteq> Some InsufficientBalanceErr
                      then (sqlTx1, err)
                      else (sqlTx1, None)))))"

definition ApplyTransactionBlock :: "'s Pegnetd \<Rightarrow> 's \<Rightarrow> EBlock \<Rightarrow> 's \<times> error option" where
  "ApplyTransactionBlock d sqlTx eblock =
    range_loop (ApplyTransactionBlock_entry d eblock) 0 (Entries eblock) sqlTx"

subsection \<open>ApplyFactoidBlock\<close>

text \<open>
  The body of the first loop (lines 405-434) on the pair \<open>(totalBurned, burns)\<close>: it
  fetches the transaction, and keeps the input of a burn in \<open>burns\<close>. \<^verbatim>\<open>*out.Address\<close>
  on a nil pointer panics.
\<close>

definition ApplyFactoidBlock_register ::
  "'s Pegnetd \<Rightarrow> bool \<Rightarrow> nat \<Rightarrow> FactoidTransaction \<Rightarrow> u64 \<times> FactoidTransactionIO list
    \<Rightarrow> (u64 \<times> FactoidTransactionIO list) \<times> error option" where
  "ApplyFactoidBlock_register d ctx i t acc =
    (case acc of (totalBurned, burns) \<Rightarrow>
      if isDone ctx then (acc, Some Canceled)
      else
        (case FactoidTransaction_Get d t of
           Inl err \<Rightarrow> (acc, Some err)
         | Inr tx \<Rightarrow>
            if length (ECOutputs tx) \<noteq> 1 \<or> length (FCTInputs tx) \<noteq> 1 \<or> length (FCTOutputs tx) > 0
            then (acc, None)
            else
              (case IO_Address (ECOutputs tx ! 0) of
                 None \<Rightarrow> (acc, Some (Panic ''nil pointer dereference''))
               | Some outAddress \<Rightarrow>
                  if BurnRCD d \<noteq> outAddress then (acc, None)
                  else if IO_Amount (ECOutputs tx ! 0) \<noteq> 0 then (acc, None)
                  else ((totalBurned + IO_Amount (FCTInputs tx ! 0), burns @ [FCTInputs tx ! 0]),
                        None))))"

text \<open>
  \<^verbatim>\<open>copy(dst, src)\<close> of Go on byte slices: the first \<open>min (len dst) (len src)\<close> bytes of
  \<open>src\<close> replace those of \<open>dst\<close>.
\<close>

definition copy_bytes :: "u8 list \<Rightarrow> u8 list \<Rightarrow> u8 list" where
  "copy_bytes dst src =
    take (min (length dst) (length src)) src @ drop (min (length dst) (length src)) dst"

text \<open>
  The body of the second loop (lines 442-448): \<open>add\<close> starts as the zero
  \<^verbatim>\<open>FAAddress\<close>; slicing a nil address pointer panics.
\<close>

definition ApplyFactoidBlock_credit ::
  "'s Pegnetd \<Rightarrow> nat \<Rightarrow> FactoidTransactionIO \<Rightarrow> 's \<Rightarrow> 's \<times> error option" where
  "ApplyFactoidBlock_credit d i burn tx =
    (case IO_Address burn of
       None \<Rightarrow> (tx, Some (Panic ''nil pointer dereference''))
     | Some burnAddress \<Rightarrow>
        (case AddToBalance (Pegnet d) tx (copy_bytes (replicate 32 0) burnAddress) PTickerFCT
                (IO_Amount burn) of
           Inl err \<Rightarrow> (tx, Some err)
         | Inr (tx1, adrID) \<Rightarrow> (tx1, None)))"

text \<open>\<^verbatim>\<open>ApplyFactoidBlock\<close> (lines 391-451). The debug line of \<open>totalBurned\<close> does nothing here.\<close>

definition ApplyFactoidBlock :: "'s Pegnetd \<Rightarrow> bool \<Rightarrow> 's \<Rightarrow> DBlock \<Rightarrow> 's \<times> error option" where
  "ApplyFactoidBlock d ctx tx dblock =
    (case FBlock_Get d (DBlock_Height dblock) of
       Inl err \<Rightarrow> (tx, Some err)
     | Inr fblock \<Rightarrow>
        (case range_loop (ApplyFactoidBlock_register d ctx) 0 (FBlock_Transactions fblock) (0, []) of
           (acc, Some err) \<Rightarrow> (tx, Some err)
         | ((totalBurned, burns), None) \<Rightarrow> range_loop (ApplyFactoidBlock_credit d) 0 burns tx))"

subsection \<open>ApplyGradedOPRBlock\<close>

text \<open>The body of the loop over the winners (lines 457-473).\<close>

definition ApplyGradedOPRBlock_winner ::
  "'s Pegnetd \<Rightarrow> nat \<Rightarrow> GradingOPR \<Rightarrow> 's \<Rightarrow> 's \<times> error option" where
  "ApplyGradedOPRBlock_winner d i winner tx =
    (case NewFAAddress d (OPR_Address winner) of
       Inl err \<Rightarrow> (tx, None)
     | Inr addr \<Rightarrow>
        (case AddToBalance (Pegnet d) tx addr PTickerPEG (Payout winner) of
           Inl err \<Rightarrow> (tx, Some err)
         | Inr (tx1, adrID) \<Rightarrow> (tx1, None)))"

definition ApplyGradedOPRBlock :: "'s Pegnetd \<Rightarrow> 's \<Rightarrow> GradedBlock \<Rightarrow> 's \<times> error option" where
  "ApplyGradedOPRBlock d tx gradedBlock =
    range_loop (ApplyGradedOPRBlock_winner d) 0 (Winners gradedBlock) tx"

subsection \<open>SyncBlock\<close>

text \<open>
  Lines 146-157: \<^verbatim>\<open>if eblock != nil { if err := multiFetch(eblock, ...) ... }\<close>, which
  fills the entry block in place.
\<close>

definition SyncBlock_fetch :: "'s Pegnetd \<Rightarrow> EBlock option \<Rightarrow> error + EBlock option" where
  "SyncBlock_fetch d eblock =
    (case eblock of
       None \<Rightarrow> Inr None
     | Some eb \<Rightarrow> (case multiFetch d eb of Inl err \<Rightarrow> Inl err | Inr eb1 \<Rightarrow> Inr (Some eb1)))"

text \<open>
  Lines 164-178: what is persisted of the graded block, and the rate vector of
  \<^verbatim>\<open>winners[0]\<close> when there is a winner.
\<close>

definition SyncBlock_grading ::
  "'s Pegnetd \<Rightarrow> 's \<Rightarrow> u32 \<Rightarrow> EBlock option \<Rightarrow> GradedBlock option \<Rightarrow> 's \<times> error option" where
  "SyncBlock_grading d tx height oprEBlock gradedBlock =
    (case gradedBlock of
       None \<Rightarrow> (tx, None)
     | Some graded \<Rightarrow>
        (case InsertGradeBlock (Pegnet d) tx oprEBlock graded of
           Inl err \<Rightarrow> (tx, Some err)
         | Inr tx1 \<Rightarrow>
            (case Winners graded of
               [] \<Rightarrow> (tx1, None)
             | winner # others \<Rightarrow>
                (case InsertRate (Pegnet d) tx1 height (OPR_Assets winner) of
                   Inl err \<Rightarrow> (tx1, Some err)
                 | Inr tx2 \<Rightarrow> (tx2, None)))))"

text \<open>Lines 180-210: the four numbered steps, each returning at its first error.\<close>

definition SyncBlock_apply ::
  "'s Pegnetd \<Rightarrow> bool \<Rightarrow> 's \<Rightarrow> u32 \<Rightarrow> DBlock \<Rightarrow> EBlock option \<Rightarrow> GradedBlock option
    \<Rightarrow> 's \<times> error option" where
  "SyncBlock_apply d ctx tx height dblock transactionsEBlock gradedBlock =
    (case (case gradedBlock of
             None \<Rightarrow> (tx, None)
           | Some graded \<Rightarrow>
              if 0 < length (Winners graded)
              then ApplyTransactionBatchesInHolding d ctx tx height
              else (tx, None)) of
       (tx1, Some err) \<Rightarrow> (tx1, Some err)
     | (tx1, None) \<Rightarrow>
        (case (case transactionsEBlock of
                 None \<Rightarrow> (tx1, None)
               | Some eblock \<Rightarrow> ApplyTransactionBlock d tx1 eblock) of
           (tx2, Some err) \<Rightarrow> (tx2, Some err)
         | (tx2, None) \<Rightarrow>
            (case ApplyFactoidBlock d ctx tx2 dblock of
               (tx3, Some err) \<Rightarrow> (tx3, Some err)
             | (tx3, None) \<Rightarrow>
                (case gradedBlock of
                   None \<Rightarrow> (tx3, None)
                 | Some graded \<Rightarrow> ApplyGradedOPRBlock d tx3 graded))))"

text \<open>\<^verbatim>\<open>SyncBlock\<close> (lines 133-211).\<close>

definition SyncBlock :: "'s Pegnetd \<Rightarrow> bool \<Rightarrow> 's \<Rightarrow> u32 \<Rightarrow> 's \<times> error option" where
  "SyncBlock d ctx tx height =
    (if isDone ctx then (tx, Some Canceled)
     else
       (case DBlock_Get d height of
          Inl err \<Rightarrow> (tx, Some err)
        | Inr dblock \<Rightarrow>
           (case SyncBlock_fetch d (DBlock_EBlock dblock (OPRChain d)) of
              Inl err \<Rightarrow> (tx, Some err)
            | Inr oprEBlock \<Rightarrow>
               (case SyncBlock_fetch d (DBlock_EBlock dblock (TransactionChain d)) of
                  Inl err \<Rightarrow> (tx, Some err)
                | Inr transactionsEBlock \<Rightarrow>
                   (case Grade d ctx oprEBlock of
                      Inl err \<Rightarrow> (tx, Some err)
                    | Inr gradedBlock \<Rightarrow>
                       (case SyncBlock_grading d tx height oprEBlock gradedBlock of
                          (tx1, Some err) \<Rightarrow> (tx1, Some err)
                        | (tx1, None) \<Rightarrow>
                           SyncBlock_apply d ctx tx1 height dblock transactionsEBlock
                             gradedBlock))))))"

subsection \<open>DBlockSync\<close>

text \<open>
  \<^verbatim>\<open>DBlockSync\<close> is the daemon's loop and does not return while the context lives.
  Embedded is one pass of the body of its inner loop (lines 54-107), run while
  \<^verbatim>\<open>d.Sync.Synced < heights.DirectoryBlock\<close>. A pass ends in one of five ways:
  \<open>NextHeight\<close> reaches the end of the body (with the committed content, or without
  one when the commit failed), \<open>Continue\<close> is the \<^verbatim>\<open>continue\<close> after a failed
  \<^verbatim>\<open>BeginTx\<close>, \<open>ContinueOuterSyncLoop\<close> is \<^verbatim>\<open>continue OuterSyncLoop\<close>, \<open>Return\<close> is
  the \<^verbatim>\<open>return\<close> on a cancelled context, and \<open>LogFatal\<close> is the \<^verbatim>\<open>Fatal\<close> log line,
  which ends the process. Each carries the receiver with its cursor as the pass
  leaves it.
\<close>

datatype 's pass =
    NextHeight "'s Pegnetd" "'s option"
  | Continue "'s Pegnetd"
  | ContinueOuterSyncLoop "'s Pegnetd"
  | Return "'s Pegnetd"
  | LogFatal "'s Pegnetd"

definition Synced_incr :: "'s Pegnetd \<Rightarrow> 's Pegnetd" where
  "Synced_incr d = d\<lparr>Sync := (Sync d)\<lparr>Synced := Synced (Sync d) + 1\<rparr>\<rparr>"

definition Synced_decr :: "'s Pegnetd \<Rightarrow> 's Pegnetd" where
  "Synced_decr d = d\<lparr>Sync := (Sync d)\<lparr>Synced := Synced (Sync d) - 1\<rparr>\<rparr>"

definition DBlockSync_pass :: "'s Pegnetd \<Rightarrow> bool \<Rightarrow> 's pass" where
  "DBlockSync_pass d ctx =
    (if isDone ctx then Return d
     else
       (case BeginTx d of
          Inl err \<Rightarrow> Continue d
        | Inr tx \<Rightarrow>
           (case SyncBlock d ctx tx (Synced (Sync d) + 1) of
              (tx1, Some err) \<Rightarrow>
               (case Rollback d tx1 of
                  Some err1 \<Rightarrow> LogFatal d
                | None \<Rightarrow> ContinueOuterSyncLoop d)
            | (tx1, None) \<Rightarrow>
               (case InsertSynced (Pegnet (Synced_incr d)) tx1 (Sync (Synced_incr d)) of
                  Inl err \<Rightarrow>
                   (case Rollback d tx1 of
                      Some err1 \<Rightarrow> LogFatal (Synced_decr (Synced_incr d))
                    | None \<Rightarrow> ContinueOuterSyncLoop (Synced_decr (Synced_incr d)))
                | Inr tx2 \<Rightarrow>
                   (case Commit d tx2 of
                      Some err \<Rightarrow>
                       (case Rollback d tx2 of
                          Some err1 \<Rightarrow> LogFatal (Synced_decr (Synced_incr d))
                        | None \<Rightarrow> NextHeight (Synced_decr (Synced_incr d)) None)
                    | None \<Rightarrow> NextHeight (Synced_incr d) (Some tx2))))))"

section \<open>What the spec says, for comparison with the code\<close>

text \<open>
  Steps run in the order of the list, each on the content the one before left, the run
  ending at the first error: the order of phases of the spec's section 5.
\<close>

fun in_order :: "('s \<Rightarrow> 's \<times> error option) list \<Rightarrow> 's \<Rightarrow> 's \<times> error option" where
  "in_order [] s = (s, None)"
| "in_order (step # steps) s =
    (case step s of
       (s1, Some err) \<Rightarrow> (s1, Some err)
     | (s1, None) \<Rightarrow> in_order steps s1)"

text \<open>A write of the store as a step.\<close>

definition store_write :: "('s \<Rightarrow> error + 's) \<Rightarrow> 's \<Rightarrow> 's \<times> error option" where
  "store_write write s = (case write s of Inl err \<Rightarrow> (s, Some err) | Inr s1 \<Rightarrow> (s1, None))"

text \<open>The spec, 4.6 step 7: the transfers of the current block, if it has a transaction chain.\<close>

definition current_block_transfers :: "'s Pegnetd \<Rightarrow> EBlock option \<Rightarrow> 's \<Rightarrow> 's \<times> error option" where
  "current_block_transfers d transactionsEBlock s =
    (case transactionsEBlock of None \<Rightarrow> (s, None) | Some eblock \<Rightarrow> ApplyTransactionBlock d s eblock)"

text \<open>
  The spec, 4.3: a transaction is a cross-chain burn iff it has exactly one native-asset
  input, exactly one entry-credit output and zero factoid outputs, that output pays the
  \<^verbatim>\<open>BurnRCD\<close> address, and its amount is exactly 0.
\<close>

definition is_burn :: "Bytes32 \<Rightarrow> FactoidTransaction \<Rightarrow> bool" where
  "is_burn burnRCD t =
    (length (FCTInputs t) = 1 \<and> length (ECOutputs t) = 1 \<and> length (FCTOutputs t) = 0 \<and>
     IO_Address (hd (ECOutputs t)) = Some burnRCD \<and> IO_Amount (hd (ECOutputs t)) = 0)"

text \<open>What a transaction is credited for: the address and amount of its input, if it is a burn.\<close>

definition burn_credit :: "Bytes32 \<Rightarrow> FactoidTransaction \<Rightarrow> (FAAddress \<times> u64) list" where
  "burn_credit burnRCD t =
    (if is_burn burnRCD t
     then (case IO_Address (hd (FCTInputs t)) of
             None \<Rightarrow> []
           | Some adr \<Rightarrow> [(adr, IO_Amount (hd (FCTInputs t)))])
     else [])"

text \<open>The credit of one burn: the amount, of pFCT, to the address.\<close>

definition credit_pFCT :: "'s Pegnetd \<Rightarrow> nat \<Rightarrow> FAAddress \<times> u64 \<Rightarrow> 's \<Rightarrow> 's \<times> error option" where
  "credit_pFCT d i credit s =
    (case AddToBalance (Pegnet d) s (fst credit) PTickerFCT (snd credit) of
       Inl err \<Rightarrow> (s, Some err)
     | Inr (s1, adrID) \<Rightarrow> (s1, None))"

text \<open>An input or output whose address pointer is set, to 32 bytes.\<close>

definition populated :: "FactoidTransactionIO \<Rightarrow> bool" where
  "populated io = (case IO_Address io of None \<Rightarrow> False | Some adr \<Rightarrow> length adr = 32)"

text \<open>
  The spec, 4.5 step 3: the window of a drain, the heights from the previous rate epoch
  up to the current height, the latter excluded, in ascending order.
\<close>

definition window :: "u32 \<Rightarrow> u32 \<Rightarrow> u32 list" where
  "window start currentHeight = map word_of_nat [unat start ..< unat currentHeight]"

section \<open>Frame conditions\<close>

text \<open>
  A relation on contents that the writes of an application of the batch with hash
  \<open>h\<close> respect: it is a preorder, and a debit, a credit and a relation row of that
  batch each lead to a related content.
\<close>

definition respected :: "'s Pegnetd \<Rightarrow> Bytes32 \<Rightarrow> ('s \<Rightarrow> 's \<Rightarrow> bool) \<Rightarrow> bool" where
  "respected d h R =
    ((\<forall>s. R s s) \<and> (\<forall>a b c. R a b \<longrightarrow> R b c \<longrightarrow> R a c) \<and>
     (\<forall>s adr ticker amount s1 adrID txErr.
        SubFromBalance (Pegnet d) s adr ticker amount = Inr (s1, adrID, txErr) \<longrightarrow> R s s1) \<and>
     (\<forall>s adr ticker amount s1 adrID.
        AddToBalance (Pegnet d) s adr ticker amount = Inr (s1, adrID) \<longrightarrow> R s s1) \<and>
     (\<forall>s adrID txIndex isOutput isConversion s1.
        InsertTransactionRelation (Pegnet d) s adrID h txIndex isOutput isConversion = Inr s1 \<longrightarrow>
        R s s1))"

section \<open>A reference store\<close>

text \<open>
  Modelled from the spec: the store (package \<^verbatim>\<open>node/pegnet\<close>) is not in this file. The
  tables below follow section 3 of the spec and the operations its section 6: balances
  \<open>(Address, AssetTicker) \<rightarrow> u64\<close>, the append-only relation rows, the holding
  queue with each batch's entry height and KeyMR, one rate vector per height that
  had winners, what was persisted of the graded blocks, and the synced height. The
  trace of \<^verbatim>\<open>"tx applied"\<close> lines is filed with the tables, so that the lines of a height
  that is rolled back go with it. The theorems on the code above do not depend on this
  store; it instantiates them, and it gives the claims that speak of balances or of
  the replay set something to speak about.
\<close>

record RelationRow =
  Row_AddressID :: i64
  Row_Hash :: Bytes32
  Row_TxIndex :: u64
  Row_IsOutput :: bool
  Row_IsConversion :: bool

record HeldBatch =
  Held_Batch :: TransactionBatch
  Held_Height :: u64
  Held_KeyMR :: Bytes32

record TxApplied =
  Applied_Height :: u32
  Applied_EntryHash :: Bytes32
  Applied_Conversion :: bool
  Applied_Txs :: nat

record Tables =
  Balances :: "FAAddress \<times> PTicker \<Rightarrow> u64"
  Relations :: "RelationRow list"
  Holding :: "HeldBatch list"
  RateTable :: "(u32 \<times> Rates) list"
  GradeBlocks :: "(EBlock option \<times> GradedBlock) list"
  SyncedHeight :: u32
  Applied :: "TxApplied list"

definition Ref_InsertSynced :: "Tables \<Rightarrow> BlockSync \<Rightarrow> error + Tables" where
  "Ref_InsertSynced s sync = Inr (s\<lparr>SyncedHeight := Synced sync\<rparr>)"

definition Ref_InsertGradeBlock :: "Tables \<Rightarrow> EBlock option \<Rightarrow> GradedBlock \<Rightarrow> error + Tables" where
  "Ref_InsertGradeBlock s eblock graded = Inr (s\<lparr>GradeBlocks := GradeBlocks s @ [(eblock, graded)]\<rparr>)"

definition Ref_InsertRate :: "Tables \<Rightarrow> u32 \<Rightarrow> Rates \<Rightarrow> error + Tables" where
  "Ref_InsertRate s height rates = Inr (s\<lparr>RateTable := RateTable s @ [(height, rates)]\<rparr>)"

text \<open>
  The rows of the rate table below a bound, and the one of greatest height among rows
  (the later row wins a tie).
\<close>

fun latest_rate :: "(u32 \<times> Rates) list \<Rightarrow> (u32 \<times> Rates) option" where
  "latest_rate [] = None"
| "latest_rate (row # rows) =
    (case latest_rate rows of
       None \<Rightarrow> Some row
     | Some best \<Rightarrow> if fst row > fst best then Some row else Some best)"

text \<open>
  The spec, 4.5 step 1: the most recent rate epoch strictly before the height, or
  nothing to do if there is none. The call has no result that ends the drain without an
  error, so with no epoch before \<open>height\<close> the store answers \<open>height\<close> itself and the
  window of the drain is empty.
\<close>

definition Ref_SelectMostRecentRatesBeforeHeight ::
  "Tables \<Rightarrow> u32 \<Rightarrow> error + (Rates option \<times> u32)" where
  "Ref_SelectMostRecentRatesBeforeHeight s height =
    (case latest_rate (filter (\<lambda>row. fst row < height) (RateTable s)) of
       None \<Rightarrow> Inr (None, height)
     | Some (h, rates) \<Rightarrow> Inr (Some rates, h))"

text \<open>
  The spec, 4.5 step 2: the most recently finalized rate vector, which at a height
  that recorded an epoch is that height's own (scenario 4 converts at H2 with the rates
  of H2).
\<close>

definition Ref_SelectPendingRates :: "Tables \<Rightarrow> u32 \<Rightarrow> error + Rates option" where
  "Ref_SelectPendingRates s height =
    (case latest_rate (filter (\<lambda>row. fst row \<le> height) (RateTable s)) of
       None \<Rightarrow> Inr None
     | Some (h, rates) \<Rightarrow> Inr (Some rates))"

definition Ref_SelectTransactionBatchesInHoldingAtHeight ::
  "Tables \<Rightarrow> u64 \<Rightarrow> error + TransactionBatch list" where
  "Ref_SelectTransactionBatchesInHoldingAtHeight db height =
    Inr (map Held_Batch (filter (\<lambda>held. Held_Height held = height) (Holding db)))"

definition Ref_InsertTransactionBatchHolding ::
  "Tables \<Rightarrow> TransactionBatch \<Rightarrow> u64 \<Rightarrow> Bytes32 \<Rightarrow> error + Tables" where
  "Ref_InsertTransactionBatchHolding s txBatch height keyMR =
    Inr (s\<lparr>Holding := Holding s @
      [\<lparr>Held_Batch = txBatch, Held_Height = height, Held_KeyMR = keyMR\<rparr>]\<rparr>)"

text \<open>
  The replay set. The spec names no store operation that writes it; of the writes of
  an application only \<^verbatim>\<open>InsertTransactionRelation\<close> carries the batch hash, and the spec
  has the hash in the replay set once the batch is applied (scenarios 3 to 5) and no
  row when the first debit fails (scenario 6). So a hash is in the set when a relation
  row carries it.
\<close>

definition Ref_IsReplayTransaction :: "Tables \<Rightarrow> Bytes32 \<Rightarrow> error + bool" where
  "Ref_IsReplayTransaction s hash = Inr (list_ex (\<lambda>row. Row_Hash row = hash) (Relations s))"

text \<open>
  The spec, section 7: the store returns \<^verbatim>\<open>tx_err\<close> before applying the mutation. The
  id of an address is the one the store's address table has for it, the parameter
  \<open>adrID\<close>.
\<close>

definition Ref_SubFromBalance ::
  "(FAAddress \<Rightarrow> i64) \<Rightarrow> Tables \<Rightarrow> FAAddress \<Rightarrow> PTicker \<Rightarrow> u64
    \<Rightarrow> error + (Tables \<times> i64 \<times> error option)" where
  "Ref_SubFromBalance adrID s adr ticker amount =
    (if Balances s (adr, ticker) < amount then Inr (s, adrID adr, Some InsufficientBalanceErr)
     else Inr (s\<lparr>Balances := (Balances s)((adr, ticker) := Balances s (adr, ticker) - amount)\<rparr>,
               adrID adr, None))"

definition Ref_AddToBalance ::
  "(FAAddress \<Rightarrow> i64) \<Rightarrow> Tables \<Rightarrow> FAAddress \<Rightarrow> PTicker \<Rightarrow> u64 \<Rightarrow> error + (Tables \<times> i64)" where
  "Ref_AddToBalance adrID s adr ticker amount =
    Inr (s\<lparr>Balances := (Balances s)((adr, ticker) := Balances s (adr, ticker) + amount)\<rparr>,
         adrID adr)"

definition Ref_InsertTransactionRelation ::
  "Tables \<Rightarrow> i64 \<Rightarrow> Bytes32 \<Rightarrow> u64 \<Rightarrow> bool \<Rightarrow> bool \<Rightarrow> error + Tables" where
  "Ref_InsertTransactionRelation s adrID hash txIndex isOutput isConversion =
    Inr (s\<lparr>Relations := Relations s @
      [\<lparr>Row_AddressID = adrID, Row_Hash = hash, Row_TxIndex = txIndex,
        Row_IsOutput = isOutput, Row_IsConversion = isConversion\<rparr>]\<rparr>)"

text \<open>The store over the committed tables \<open>db\<close>, which the read without a transaction sees.\<close>

definition RefPegnet :: "(FAAddress \<Rightarrow> i64) \<Rightarrow> Tables \<Rightarrow> Tables Pegnet" where
  "RefPegnet adrID db =
    \<lparr>InsertSynced = Ref_InsertSynced,
     InsertGradeBlock = Ref_InsertGradeBlock,
     InsertRate = Ref_InsertRate,
     SelectMostRecentRatesBeforeHeight = Ref_SelectMostRecentRatesBeforeHeight,
     SelectPendingRates = Ref_SelectPendingRates,
     SelectTransactionBatchesInHoldingAtHeight = Ref_SelectTransactionBatchesInHoldingAtHeight db,
     InsertTransactionBatchHolding = Ref_InsertTransactionBatchHolding,
     IsReplayTransaction = Ref_IsReplayTransaction,
     SubFromBalance = Ref_SubFromBalance adrID,
     AddToBalance = Ref_AddToBalance adrID,
     InsertTransactionRelation = Ref_InsertTransactionRelation\<rparr>"

definition Ref_TracefTxApplied :: "Tables \<Rightarrow> u32 \<Rightarrow> Bytes32 \<Rightarrow> bool \<Rightarrow> nat \<Rightarrow> Tables" where
  "Ref_TracefTxApplied s height hash conversion txs =
    s\<lparr>Applied := Applied s @
      [\<lparr>Applied_Height = height, Applied_EntryHash = hash, Applied_Conversion = conversion,
        Applied_Txs = txs\<rparr>]\<rparr>"

text \<open>
  The spec, 4.2 step 3: \<open>floor (amount * rate_in / rate_out)\<close>, computed without
  overflow of the product.
\<close>

definition Ref_Convert :: "i64 \<Rightarrow> u64 \<Rightarrow> u64 \<Rightarrow> error + i64" where
  "Ref_Convert amount fromRate toRate =
    Inr (word_of_nat (unat amount * unat fromRate div unat toRate))"

text \<open>
  A receiver on the reference store: the collaborators of \<open>d\<close> are kept (also whether
  its commits and rollbacks fail), its store and trace are the reference ones over the
  committed tables \<open>db\<close>, and a transaction begins as a copy of \<open>db\<close>.
\<close>

definition OnRefStore :: "(FAAddress \<Rightarrow> i64) \<Rightarrow> Tables \<Rightarrow> Tables Pegnetd \<Rightarrow> Tables Pegnetd" where
  "OnRefStore adrID db d =
    d\<lparr>Pegnet := RefPegnet adrID db,
      TracefTxApplied := Ref_TracefTxApplied,
      BeginTx := Inr db\<rparr>"





text \<open>
  Collaborators for the examples: no block at any height, a parser that refuses every
  entry, a validator that accepts every batch, the reference conversion, and constants
  that differ from each other.
\<close>

definition ExamplePegnetd :: "Tables \<Rightarrow> Tables Pegnetd" where
  "ExamplePegnetd db =
    \<lparr>Pegnet = RefPegnet (\<lambda>adr. 0) db,
     Sync = \<lparr>Synced = SyncedHeight db\<rparr>,
     OPRChain = replicate 32 1,
     TransactionChain = replicate 32 2,
     BurnRCD = replicate 32 3,
     DBlock_Get = (\<lambda>height. Inr \<lparr>DBlock_Height = height, EBlocks = []\<rparr>),
     multiFetch = (\<lambda>eblock. Inr eblock),
     FBlock_Get = (\<lambda>height. Inr \<lparr>FBlock_Height = height, FBlock_Transactions = []\<rparr>),
     FactoidTransaction_Get = (\<lambda>t. Inr t),
     Grade = (\<lambda>ctx eblock. Inr None),
     UnmarshalEntry = (\<lambda>txBatch. Inl (Fault ''not a transaction batch'')),
     Validate = (\<lambda>txBatch. None),
     Convert = Ref_Convert,
     NewFAAddress = (\<lambda>adr. Inl (Fault ''not an address'')),
     TracefTxApplied = Ref_TracefTxApplied,
     BeginTx = Inr db,
     Commit = (\<lambda>tx. None),
     Rollback = (\<lambda>tx. None)\<rparr>"

definition EmptyTables :: Tables where
  "EmptyTables =
    \<lparr>Balances = (\<lambda>key. 0), Relations = [], Holding = [], RateTable = [], GradeBlocks = [],
     SyncedHeight = 0, Applied = []\<rparr>"

text \<open>Data for the examples: two addresses, two assets, a transfer, a conversion, a batch.\<close>

definition AdrA :: FAAddress where
  "AdrA = replicate 32 10"

definition AdrB :: FAAddress where
  "AdrB = replicate 32 11"

definition pUSD :: PTicker where
  "pUSD = PTickerAsset ''pUSD''"

definition pXAU :: PTicker where
  "pXAU = PTickerAsset ''pXAU''"

definition ExampleTransfer :: "FAAddress \<Rightarrow> u64 \<Rightarrow> FAAddress \<Rightarrow> Transaction" where
  "ExampleTransfer sender amount receiver =
    \<lparr>Input = \<lparr>Address = sender, Amount = amount, Type = pUSD\<rparr>,
     Transfers = [\<lparr>Address = receiver, Amount = amount\<rparr>],
     Conversion = None\<rparr>"

definition ExampleConversion :: "FAAddress \<Rightarrow> u64 \<Rightarrow> PTicker \<Rightarrow> PTicker \<Rightarrow> Transaction" where
  "ExampleConversion owner amount ticker target =
    \<lparr>Input = \<lparr>Address = owner, Amount = amount, Type = ticker\<rparr>,
     Transfers = [],
     Conversion = Some target\<rparr>"

definition ExampleBatch :: "u8 \<Rightarrow> Transaction list \<Rightarrow> TransactionBatch" where
  "ExampleBatch h txs =
    \<lparr>BatchEntry = \<lparr>EntryHash = replicate 32 h, Content = []\<rparr>, Transactions = txs\<rparr>"

definition Funded :: "FAAddress \<Rightarrow> PTicker \<Rightarrow> u64 \<Rightarrow> Tables" where
  "Funded adr ticker amount = EmptyTables\<lparr>Balances := (\<lambda>key. 0)((adr, ticker) := amount)\<rparr>"

definition Held :: "u64 \<Rightarrow> TransactionBatch \<Rightarrow> HeldBatch" where
  "Held height txBatch = \<lparr>Held_Batch = txBatch, Held_Height = height, Held_KeyMR = replicate 32 0\<rparr>"

definition Fund :: "FAAddress \<Rightarrow> PTicker \<Rightarrow> u64 \<Rightarrow> Tables \<Rightarrow> Tables" where
  "Fund adr ticker amount s = s\<lparr>Balances := (Balances s)((adr, ticker) := amount)\<rparr>"

definition ExampleRates :: Rates where
  "ExampleRates = [(pUSD, 10), (PTickerPEG, 25), (pXAU, 0)]"

text \<open>Tables in which heights 1 and 2 each recorded a rate epoch.\<close>

definition Rated :: "Tables \<Rightarrow> Tables" where
  "Rated s = s\<lparr>RateTable := [(1, ExampleRates), (2, ExampleRates)]\<rparr>"

text \<open>A parser that reads every entry as the given transactions.\<close>

definition ParsesAs :: "Transaction list \<Rightarrow> 's Pegnetd \<Rightarrow> 's Pegnetd" where
  "ParsesAs txs d = d\<lparr>UnmarshalEntry := (\<lambda>txBatch. Inr (txBatch\<lparr>Transactions := txs\<rparr>))\<rparr>"

text \<open>A directory block whose transaction chain has the given entries, at every height.\<close>

definition WithTransactions :: "Entry list \<Rightarrow> 's Pegnetd \<Rightarrow> 's Pegnetd" where
  "WithTransactions entries d =
    d\<lparr>DBlock_Get := (\<lambda>height. Inr \<lparr>DBlock_Height = height, EBlocks =
      [\<lparr>ChainID = TransactionChain d, EBlock_Height = height, KeyMR = [], Entries = entries\<rparr>]\<rparr>)\<rparr>"

text \<open>An address parser that reads every string as the given address.\<close>

definition AddressesAs :: "FAAddress \<Rightarrow> 's Pegnetd \<Rightarrow> 's Pegnetd" where
  "AddressesAs adr d = d\<lparr>NewFAAddress := (\<lambda>text. Inr adr)\<rparr>"


text \<open>A store whose credits fail.\<close>

definition FaultyCredit :: "'s Pegnetd \<Rightarrow> 's Pegnetd" where
  "FaultyCredit d =
    d\<lparr>Pegnet := (Pegnet d)\<lparr>AddToBalance := (\<lambda>s adr ticker amount. Inl (Fault ''write failed''))\<rparr>\<rparr>"

definition ExampleWinner :: GradingOPR where
  "ExampleWinner =
    \<lparr>OPR_Address = ''FA2jK2HcLnRdS94dEcU27rF3meoJfpUcZPSinpb7AwQvPRY6RL1Q'', OPR_Height = 2,
     OPR_Assets = ExampleRates, OPR_EntryHash = [], Payout = 100\<rparr>"

definition GradesAs :: "GradedBlock \<Rightarrow> 's Pegnetd \<Rightarrow> 's Pegnetd" where
  "GradesAs graded d = d\<lparr>Grade := (\<lambda>ctx eblock. Inr (Some graded))\<rparr>"

definition WithFBlock :: "FactoidTransaction list \<Rightarrow> 's Pegnetd \<Rightarrow> 's Pegnetd" where
  "WithFBlock txs d =
    d\<lparr>FBlock_Get := (\<lambda>height. Inr \<lparr>FBlock_Height = height, FBlock_Transactions = txs\<rparr>)\<rparr>"

definition ExampleIO :: "u64 \<Rightarrow> Bytes32 \<Rightarrow> FactoidTransactionIO" where
  "ExampleIO amount adr = \<lparr>IO_Amount = amount, IO_Address = Some adr\<rparr>"

section \<open>Lemmas on the loops\<close>

lemmas ref_defs = ExamplePegnetd_def RefPegnet_def Ref_SubFromBalance_def Ref_AddToBalance_def
  Ref_InsertTransactionRelation_def Ref_IsReplayTransaction_def Ref_TracefTxApplied_def
  Ref_SelectTransactionBatchesInHoldingAtHeight_def Ref_SelectPendingRates_def
  Ref_SelectMostRecentRatesBeforeHeight_def Ref_InsertTransactionBatchHolding_def
  Ref_InsertRate_def Ref_InsertGradeBlock_def Ref_InsertSynced_def Ref_Convert_def

lemmas ex_defs = AdrA_def AdrB_def pUSD_def pXAU_def ExampleTransfer_def ExampleConversion_def
  ExampleBatch_def Funded_def Held_def EmptyTables_def Hash_def IsConversion_def
  HasConversions_def Fund_def ExampleRates_def Rated_def ParsesAs_def FaultyCredit_def
  NewTransactionBatch_def ExampleWinner_def GradesAs_def WithFBlock_def ExampleIO_def

lemmas code_defs = applyTransactionBatch_def applyTransactionBatch_tx_def
  applyTransactionBatch_transfer_def ApplyTransactionBatchesInHolding_batch_def
  ApplyTransactionBatchesInHolding_def ApplyTransactionBlock_entry_def ApplyTransactionBlock_def

lemmas pass_defs = DBlockSync_pass_def isDone_def SyncBlock_def SyncBlock_fetch_def DBlock_EBlock_def
  SyncBlock_grading_def SyncBlock_apply_def OnRefStore_def ApplyFactoidBlock_def
  ApplyGradedOPRBlock_def Synced_incr_def Synced_decr_def

lemma range_loop_append:
  "range_loop body i (xs @ ys) s =
    (case range_loop body i xs s of
       (s1, Some r) \<Rightarrow> (s1, Some r)
     | (s1, None) \<Rightarrow> range_loop body (i + length xs) ys s1)"
  by (induction xs arbitrary: i s) (auto split: prod.splits option.splits)

lemma heights_step:
  "i < H \<Longrightarrow> SelectTransactionBatchesInHoldingAtHeight (Pegnet d) (ucast i) = Inr bs \<Longrightarrow>
   ApplyTransactionBatchesInHolding_heights d s rates H i =
     (case range_loop (ApplyTransactionBatchesInHolding_batch d rates H) 0 bs s of
        (s1, Some r) \<Rightarrow> (s1, r)
      | (s1, None) \<Rightarrow> ApplyTransactionBatchesInHolding_heights d s1 rates H (i + 1))"
  by (subst ApplyTransactionBatchesInHolding_heights.simps) simp

lemma heights_done:
  "\<not> i < H \<Longrightarrow> ApplyTransactionBatchesInHolding_heights d s rates H i = (s, None)"
  by (subst ApplyTransactionBatchesInHolding_heights.simps) simp

lemma applyTransactionBatch_split:
  assumes "Transactions txBatch = pre @ post"
    and "range_loop (applyTransactionBatch_tx d txBatch rates) 0 pre sqlTx = (sqlTx0, None)"
    and "range_loop (applyTransactionBatch_tx d txBatch rates) (length pre) post sqlTx0 =
      (sqlTx1, Some r)"
  shows "applyTransactionBatch d sqlTx txBatch rates currentHeight = (sqlTx1, r)"
  using assms by (simp add: applyTransactionBatch_def range_loop_append)

lemma result_eta:
  "(case r of (s1, None) \<Rightarrow> (s1, None) | (s1, Some err) \<Rightarrow> (s1, Some err)) = r"
  by (simp split: prod.split option.split)

lemma copy_bytes_32: "length adr = 32 \<Longrightarrow> copy_bytes (replicate 32 0) adr = adr"
  by (simp add: copy_bytes_def)

lemma register_one:
  assumes "\<not> isDone ctx" "FactoidTransaction_Get d t = Inr tx"
    and "list_all populated (ECOutputs tx)"
  shows "ApplyFactoidBlock_register d ctx i t (burned, burns) =
    ((if is_burn (BurnRCD d) tx then burned + IO_Amount (hd (FCTInputs tx)) else burned,
      burns @ (if is_burn (BurnRCD d) tx then [hd (FCTInputs tx)] else [])), None)"
proof (cases "length (ECOutputs tx) = 1 \<and> length (FCTInputs tx) = 1 \<and> length (FCTOutputs tx) = 0")
  case False
  then show ?thesis
    using assms by (auto simp add: ApplyFactoidBlock_register_def is_burn_def)
next
  case True
  then obtain out where out: "ECOutputs tx = [out]"
    by (cases "ECOutputs tx") auto
  from True obtain inp where inp: "FCTInputs tx = [inp]"
    by (cases "FCTInputs tx") auto
  from assms(3) out obtain adr where adr: "IO_Address out = Some adr"
    by (auto simp add: populated_def split: option.splits)
  show ?thesis
    using assms(1,2) True out inp adr
    by (auto simp add: ApplyFactoidBlock_register_def is_burn_def)
qed

lemma register_all:
  assumes "\<not> isDone ctx"
  shows "map (FactoidTransaction_Get d) ts = map Inr txs \<Longrightarrow>
    list_all (\<lambda>tx. list_all populated (ECOutputs tx)) txs \<Longrightarrow>
    \<exists>burned1. range_loop (ApplyFactoidBlock_register d ctx) i ts (burned, burns) =
      ((burned1, burns @ map (\<lambda>tx. hd (FCTInputs tx)) (filter (is_burn (BurnRCD d)) txs)), None)"
proof (induction ts arbitrary: txs i burned burns)
  case Nil
  then show ?case by simp
next
  case (Cons t ts)
  from Cons.prems(1) obtain tx rest where txs: "txs = tx # rest"
    and get: "FactoidTransaction_Get d t = Inr tx"
    and more: "map (FactoidTransaction_Get d) ts = map Inr rest"
    by (cases txs) auto
  from Cons.prems(2) txs have pop: "list_all populated (ECOutputs tx)"
    and pops: "list_all (\<lambda>tx. list_all populated (ECOutputs tx)) rest"
    by simp_all
  note one = register_one [OF assms get pop, of i burned burns]
  from Cons.IH [OF more pops] obtain burned1 where
    "range_loop (ApplyFactoidBlock_register d ctx) (Suc i) ts
      (if is_burn (BurnRCD d) tx then burned + IO_Amount (hd (FCTInputs tx)) else burned,
       burns @ (if is_burn (BurnRCD d) tx then [hd (FCTInputs tx)] else [])) =
     ((burned1, (burns @ (if is_burn (BurnRCD d) tx then [hd (FCTInputs tx)] else [])) @
        map (\<lambda>tx. hd (FCTInputs tx)) (filter (is_burn (BurnRCD d)) rest)), None)"
    by blast
  with one txs show ?case
    by simp
qed

lemma credit_all:
  "list_all populated burns \<Longrightarrow>
   range_loop (ApplyFactoidBlock_credit d) i burns tx =
   range_loop (credit_pFCT d) i
     (map (\<lambda>burn. (case IO_Address burn of None \<Rightarrow> [] | Some adr \<Rightarrow> adr, IO_Amount burn)) burns) tx"
proof (induction burns arbitrary: i tx)
  case Nil
  then show ?case by simp
next
  case (Cons burn burns)
  from Cons.prems have first: "populated burn" and rest: "list_all populated burns"
    by simp_all
  from first obtain adr where adr: "IO_Address burn = Some adr" "length adr = 32"
    by (auto simp add: populated_def split: option.splits)
  have "ApplyFactoidBlock_credit d i burn tx = credit_pFCT d i (adr, IO_Amount burn) tx"
    using adr by (simp add: ApplyFactoidBlock_credit_def credit_pFCT_def copy_bytes_32)
  then show ?case
    using adr Cons.IH [OF rest] by simp
qed

lemma range_loop_invariant:
  assumes "\<And>i x s. x \<in> set xs \<Longrightarrow> P s \<Longrightarrow> P (fst (body i x s))"
    and "P s"
  shows "P (fst (range_loop body i xs s))"
  using assms
proof (induction xs arbitrary: i s)
  case Nil
  then show ?case by simp
next
  case (Cons x xs)
  have step: "P (fst (body i x s))"
    using Cons.prems by simp
  show ?case
  proof (cases "body i x s")
    case (Pair s1 r)
    with step have s1: "P s1" by simp
    show ?thesis
    proof (cases r)
      case None
      have "P (fst (range_loop body (Suc i) xs s1))"
        using Cons.prems(1) s1 by (intro Cons.IH) simp_all
      with Pair None show ?thesis by simp
    next
      case (Some a)
      with Pair s1 show ?thesis by simp
    qed
  qed
qed

lemmas respected_refl = respected_def [THEN iffD1, THEN conjunct1, rule_format]
lemmas respected_trans =
  respected_def [THEN iffD1, THEN conjunct2, THEN conjunct1, rule_format]
lemmas respected_sub =
  respected_def [THEN iffD1, THEN conjunct2, THEN conjunct2, THEN conjunct1, rule_format]
lemmas respected_add =
  respected_def [THEN iffD1, THEN conjunct2, THEN conjunct2, THEN conjunct2, THEN conjunct1,
    rule_format]
lemmas respected_rel =
  respected_def [THEN iffD1, THEN conjunct2, THEN conjunct2, THEN conjunct2, THEN conjunct2,
    rule_format]

lemma transfer_respects:
  assumes R: "respected d (Hash txBatch) R"
  shows "R s (fst (applyTransactionBatch_transfer d txBatch txIndex tx i transfer s))"
proof (cases "AddToBalance (Pegnet d) s (Address transfer) (Type (Input tx)) (Amount transfer)")
  case (Inl err)
  then show ?thesis
    by (simp add: applyTransactionBatch_transfer_def respected_refl [OF R])
next
  case (Inr credited)
  obtain s1 adrID where credited: "credited = (s1, adrID)"
    by (cases credited)
  note step1 = respected_add [OF R Inr [unfolded credited]]
  show ?thesis
  proof (cases "InsertTransactionRelation (Pegnet d) s1 adrID (Hash txBatch) (word_of_nat txIndex)
      True False")
    case (Inl err)
    with Inr credited step1 show ?thesis
      by (simp add: applyTransactionBatch_transfer_def)
  next
    case (Inr s2)
    note step2 = respected_rel [OF R Inr]
    from respected_trans [OF R step1 step2] \<open>AddToBalance _ _ _ _ _ = _\<close> credited Inr
    show ?thesis
      by (simp add: applyTransactionBatch_transfer_def)
  qed
qed

lemma transfers_respect:
  assumes R: "respected d (Hash txBatch) R"
  shows "R s (fst (range_loop (applyTransactionBatch_transfer d txBatch txIndex tx) i transfers s))"
proof (rule range_loop_invariant [where P = "R s"])
  show "R s s" by (rule respected_refl [OF R])
next
  fix j x s1
  assume "R s s1"
  from respected_trans [OF R this transfer_respects [OF R]]
  show "R s (fst (applyTransactionBatch_transfer d txBatch txIndex tx j x s1))" .
qed

lemma tx_respects:
  assumes R: "respected d (Hash txBatch) R"
  shows "R s (fst (applyTransactionBatch_tx d txBatch rates txIndex tx s))"
proof (cases "SubFromBalance (Pegnet d) s (Address (Input tx)) (Type (Input tx)) (Amount (Input tx))")
  case (Inl err)
  then show ?thesis
    by (simp add: applyTransactionBatch_tx_def respected_refl [OF R])
next
  case (Inr debited)
  obtain s1 inputAdrID txErr where debited: "debited = (s1, inputAdrID, txErr)"
    by (cases debited)
  note step1 = respected_sub [OF R Inr [unfolded debited]]
  show ?thesis
  proof (cases txErr)
    case (Some err)
    with Inr debited step1 show ?thesis
      by (simp add: applyTransactionBatch_tx_def)
  next
    case None
    note debit = Inr [unfolded debited None]
    show ?thesis
    proof (cases "InsertTransactionRelation (Pegnet d) s1 inputAdrID (Hash txBatch)
        (word_of_nat txIndex) False (IsConversion tx)")
      case (Inl err)
      with debit step1 show ?thesis
        by (simp add: applyTransactionBatch_tx_def)
    next
      case (Inr s2)
      note row = Inr
      note step2 = respected_trans [OF R step1 respected_rel [OF R row]]
      show ?thesis
      proof (cases "Conversion tx")
        case None
        from respected_trans [OF R step2 transfers_respect [OF R]] debit row None
        show ?thesis
          by (simp add: applyTransactionBatch_tx_def)
      next
        case (Some target)
        note conv = Some
        show ?thesis
        proof (cases "\<exists>r. rates = Some r \<and> r \<noteq> [] \<and> rate_of r (Type (Input tx)) \<noteq> 0 \<and>
            rate_of r target \<noteq> 0")
          case False
          then have "fst (applyTransactionBatch_tx d txBatch rates txIndex tx s) = s2"
            using debit row conv
            by (auto simp add: applyTransactionBatch_tx_def split: option.splits)
          with step2 show ?thesis by simp
        next
          case True
          then obtain r where r: "rates = Some r" "r \<noteq> []" "rate_of r (Type (Input tx)) \<noteq> 0"
            "rate_of r target \<noteq> 0"
            by blast
          show ?thesis
          proof (cases "Convert d (Amount (Input tx)) (rate_of r (Type (Input tx))) (rate_of r target)")
            case (Inl err)
            with debit row conv r step2 show ?thesis
              by (simp add: applyTransactionBatch_tx_def)
          next
            case (Inr outputAmount)
            note converted = Inr
            show ?thesis
            proof (cases "AddToBalance (Pegnet d) s2 (Address (Input tx)) target outputAmount")
              case (Inl err)
              with debit row conv r converted step2 show ?thesis
                by (simp add: applyTransactionBatch_tx_def)
            next
              case (Inr credited)
              obtain s3 adrID where credited: "credited = (s3, adrID)"
                by (cases credited)
              from respected_trans [OF R step2 respected_add [OF R Inr [unfolded credited]]]
                debit row conv r converted Inr credited
              show ?thesis
                by (simp add: applyTransactionBatch_tx_def)
            qed
          qed
        qed
      qed
    qed
  qed
qed

lemma txs_respect:
  assumes R: "respected d (Hash txBatch) R"
  shows "R s (fst (range_loop (applyTransactionBatch_tx d txBatch rates) i txs s))"
proof (rule range_loop_invariant [where P = "R s"])
  show "R s s" by (rule respected_refl [OF R])
next
  fix j x s1
  assume "R s s1"
  from respected_trans [OF R this tx_respects [OF R]]
  show "R s (fst (applyTransactionBatch_tx d txBatch rates j x s1))" .
qed

lemma applyTransactionBatch_respects:
  assumes R: "respected d (Hash txBatch) R"
    and trace: "\<And>s1. R s1 (TracefTxApplied d s1 currentHeight (Hash txBatch)
      (HasConversions txBatch) (length (Transactions txBatch)))"
  shows "R s (fst (applyTransactionBatch d s txBatch rates currentHeight))"
proof (cases "range_loop (applyTransactionBatch_tx d txBatch rates) 0 (Transactions txBatch) s")
  case (Pair s1 r)
  have s1: "R s s1"
    using txs_respect [OF R, of s rates 0 "Transactions txBatch"] Pair by simp
  show ?thesis
  proof (cases r)
    case None
    with Pair respected_trans [OF R s1 trace] show ?thesis
      by (simp add: applyTransactionBatch_def)
  next
    case (Some a)
    with Pair s1 show ?thesis
      by (simp add: applyTransactionBatch_def)
  qed
qed


lemma batch_respects:
  assumes R: "respected d (Hash txBatch) R"
    and trace: "\<And>s1. R s1 (TracefTxApplied d s1 currentHeight (Hash txBatch)
      (HasConversions txBatch) (length (Transactions txBatch)))"
  shows "R s (fst (ApplyTransactionBatchesInHolding_batch d rates currentHeight n txBatch s))"
proof (cases "Validate d txBatch")
  case (Some err)
  then show ?thesis
    by (simp add: ApplyTransactionBatchesInHolding_batch_def respected_refl [OF R])
next
  case None
  note valid = None
  show ?thesis
  proof (cases "IsReplayTransaction (Pegnet d) s (Hash txBatch)")
    case (Inl err)
    with valid show ?thesis
      by (simp add: ApplyTransactionBatchesInHolding_batch_def respected_refl [OF R])
  next
    case (Inr isReplay)
    show ?thesis
    proof (cases isReplay)
      case True
      with valid Inr show ?thesis
        by (simp add: ApplyTransactionBatchesInHolding_batch_def respected_refl [OF R])
    next
      case False
      have "fst (ApplyTransactionBatchesInHolding_batch d rates currentHeight n txBatch s) =
          fst (applyTransactionBatch d s txBatch rates currentHeight)"
        using valid Inr False
        by (simp add: ApplyTransactionBatchesInHolding_batch_def split: prod.split)
      with applyTransactionBatch_respects [OF R trace, of s rates] show ?thesis
        by simp
    qed
  qed
qed

lemma word_succ:
  assumes "(i :: u32) < H"
  shows "unat (i + 1) = Suc (unat i)" and "i \<le> i + 1" and "i < i + 1"
proof -
  from assms have "unat i < unat H"
    by (simp add: word_less_nat_alt)
  moreover have "unat H < 2 ^ 32"
    using unsigned_less [of H] by simp
  ultimately have "unat i + 1 < 2 ^ 32"
    by simp
  then show "unat (i + 1) = Suc (unat i)"
    by (simp add: unat_word_ariths)
  then show "i \<le> i + 1" and "i < i + 1"
    by (simp_all add: word_le_nat_alt word_less_nat_alt)
qed

lemma heights_invariant:
  assumes body: "\<And>k bs n b s1. start \<le> k \<Longrightarrow> k < H \<Longrightarrow>
      SelectTransactionBatchesInHoldingAtHeight (Pegnet d) (ucast k) = Inr bs \<Longrightarrow> b \<in> set bs \<Longrightarrow>
      P s1 \<Longrightarrow> P (fst (ApplyTransactionBatchesInHolding_batch d rates H n b s1))"
  shows "start \<le> i \<Longrightarrow> P s \<Longrightarrow> P (fst (ApplyTransactionBatchesInHolding_heights d s rates H i))"
proof (induction "unat H - unat i" arbitrary: i s)
  case 0
  then have "\<not> i < H"
    by (simp add: word_less_nat_alt)
  with "0.prems" show ?case
    by (simp add: heights_done)
next
  case (Suc m)
  show ?case
  proof (cases "i < H")
    case False
    with Suc.prems show ?thesis
      by (simp add: heights_done)
  next
    case True
    show ?thesis
    proof (cases "SelectTransactionBatchesInHoldingAtHeight (Pegnet d) (ucast i)")
      case (Inl err)
      with True Suc.prems show ?thesis
        by (subst ApplyTransactionBatchesInHolding_heights.simps) simp
    next
      case (Inr bs)
      have loop: "P (fst (range_loop (ApplyTransactionBatchesInHolding_batch d rates H) 0 bs s))"
      proof (rule range_loop_invariant [where P = P])
        show "P s" by (rule Suc.prems)
      next
        fix n b s1
        assume "b \<in> set bs" "P s1"
        with body [OF Suc.prems(1) True Inr]
        show "P (fst (ApplyTransactionBatchesInHolding_batch d rates H n b s1))"
          by blast
      qed
      show ?thesis
      proof (cases "range_loop (ApplyTransactionBatchesInHolding_batch d rates H) 0 bs s")
        case (Pair s1 r)
        with loop have s1: "P s1" by simp
        show ?thesis
        proof (cases r)
          case (Some a)
          with Pair s1 True Inr show ?thesis
            by (simp add: heights_step)
        next
          case None
          from Suc.prems(1) word_succ(2) [OF True] have next_start: "start \<le> i + 1"
            by simp
          from Suc.hyps(2) word_succ(1) [OF True] have "m = unat H - unat (i + 1)"
            by simp
          from Suc.hyps(1) [OF this next_start s1]
          have "P (fst (ApplyTransactionBatchesInHolding_heights d s1 rates H (i + 1)))" .
          with Pair None True Inr show ?thesis
            by (simp add: heights_step)
        qed
      qed
    qed
  qed
qed

lemma drain_invariant:
  assumes body: "\<And>unused start rates k bs n b s1.
      SelectMostRecentRatesBeforeHeight (Pegnet d) s H = Inr (unused, start) \<Longrightarrow>
      SelectPendingRates (Pegnet d) s H = Inr rates \<Longrightarrow> start \<le> k \<Longrightarrow> k < H \<Longrightarrow>
      SelectTransactionBatchesInHoldingAtHeight (Pegnet d) (ucast k) = Inr bs \<Longrightarrow> b \<in> set bs \<Longrightarrow>
      P s1 \<Longrightarrow> P (fst (ApplyTransactionBatchesInHolding_batch d rates H n b s1))"
    and start: "P s"
  shows "P (fst (ApplyTransactionBatchesInHolding d ctx s H))"
proof (cases "SelectMostRecentRatesBeforeHeight (Pegnet d) s H")
  case (Inl err)
  with start show ?thesis
    by (simp add: ApplyTransactionBatchesInHolding_def)
next
  case (Inr found)
  obtain unused height where found: "found = (unused, height)"
    by (cases found)
  note before = Inr [unfolded found]
  show ?thesis
  proof (cases "SelectPendingRates (Pegnet d) s H")
    case (Inl err)
    with before start show ?thesis
      by (simp add: ApplyTransactionBatchesInHolding_def)
  next
    case (Inr rates)
    have "P (fst (ApplyTransactionBatchesInHolding_heights d s rates H height))"
      by (rule heights_invariant [where start = height and P = P, OF body [OF before Inr]])
        (simp_all add: start)
    with before Inr show ?thesis
      by (simp add: ApplyTransactionBatchesInHolding_def)
  qed
qed

lemma drain_keeps_reading:
  assumes sub: "\<forall>s adr ticker amount s1 adrID txErr.
      SubFromBalance (Pegnet d) s adr ticker amount = Inr (s1, adrID, txErr) \<longrightarrow> held s1 = held s"
    and add: "\<forall>s adr ticker amount s1 adrID.
      AddToBalance (Pegnet d) s adr ticker amount = Inr (s1, adrID) \<longrightarrow> held s1 = held s"
    and rel: "\<forall>s adrID hash txIndex isOutput isConversion s1.
      InsertTransactionRelation (Pegnet d) s adrID hash txIndex isOutput isConversion = Inr s1 \<longrightarrow>
      held s1 = held s"
    and trace: "\<forall>s height hash conversion txs.
      held (TracefTxApplied d s height hash conversion txs) = held s"
  shows "held (fst (ApplyTransactionBatchesInHolding d ctx sqlTx currentHeight)) = held sqlTx"
proof -
  let ?R = "\<lambda>s s1. held s1 = held s"
  have R: "respected d h ?R" for h
    unfolding respected_def using sub add rel by auto
  show ?thesis
  proof (rule drain_invariant [where P = "?R sqlTx"])
    show "held sqlTx = held sqlTx" by simp
  next
    fix rates n b s1
    assume "held s1 = held sqlTx"
    moreover have "?R s1 (fst (ApplyTransactionBatchesInHolding_batch d rates currentHeight n b s1))"
      by (rule batch_respects [OF R]) (simp add: trace)
    ultimately show "held (fst (ApplyTransactionBatchesInHolding_batch d rates currentHeight n b s1)) =
        held sqlTx"
      by simp
  qed
qed

lemma window_step:
  assumes "i < H"
  shows "window i H = i # window (i + 1) H"
proof -
  from assms have "unat i < unat H"
    by (simp add: word_less_nat_alt)
  then have "[unat i ..< unat H] = unat i # [Suc (unat i) ..< unat H]"
    by (simp add: upt_conv_Cons)
  with word_succ(1) [OF assms] show ?thesis
    by (simp add: window_def)
qed

lemma window_done: "\<not> i < H \<Longrightarrow> window i H = []"
  by (simp add: window_def word_less_nat_alt)

lemma window_set: "set (window start H) = {k. start \<le> k \<and> k < H}"
proof (induction "unat H - unat start" arbitrary: start)
  case 0
  then have "\<not> start < H"
    by (simp add: word_less_nat_alt)
  then show ?case
    by (auto simp add: window_done)
next
  case (Suc m)
  then have below: "start < H"
    by (simp add: word_less_nat_alt)
  note succ = word_succ [OF below]
  from Suc.hyps(2) succ(1) have "m = unat H - unat (start + 1)"
    by simp
  from Suc.hyps(1) [OF this] have "set (window (start + 1) H) = {k. start + 1 \<le> k \<and> k < H}" .
  moreover have "start + 1 \<le> k \<longleftrightarrow> start \<le> k \<and> k \<noteq> start" for k
    using succ(1) by (auto simp add: word_le_nat_alt word_unat_eq_iff)
  ultimately show ?case
    using below by (auto simp add: window_step)
qed





section \<open>The claims\<close>

text \<open>
  C5, a counterexample. The claim: during the holding drain an \<^verbatim>\<open>InsufficientBalance\<close>
  from applying a held batch is swallowed, that batch alone is dropped, and the drain
  continues with the remaining held batches of the window. Two batches are held at
  height 1: the first sends 5 pUSD from A to B and then converts 10 pUSD of A, which
  has 5; the second converts 5 pUSD of B, which has none. The application of the first
  returns \<^verbatim>\<open>InsufficientBalanceErr\<close> and the drain at height 2 returns no error, but the
  first batch is not dropped alone: its transfer stays, A ends with 0 pUSD, and the
  second batch converts the 5 pUSD that B got from it into 2 PEG, with three relation
  rows written. With the second batch alone in holding, A keeps its 5 pUSD, B gets no
  PEG and no row is written.
\<close>

theorem holding_drain_swallows_InsufficientBalance_counterexample:
  "snd (applyTransactionBatch
      (ExamplePegnetd (Rated (EmptyTables\<lparr>Holding :=
        [Held 1 (ExampleBatch 1 [ExampleTransfer AdrA 5 AdrB,
           ExampleConversion AdrA 10 pUSD PTickerPEG]),
         Held 1 (ExampleBatch 2 [ExampleConversion AdrB 5 pUSD PTickerPEG])]\<rparr>)))
      (Fund AdrA pUSD 5 (Rated (EmptyTables\<lparr>Holding :=
        [Held 1 (ExampleBatch 1 [ExampleTransfer AdrA 5 AdrB,
           ExampleConversion AdrA 10 pUSD PTickerPEG]),
         Held 1 (ExampleBatch 2 [ExampleConversion AdrB 5 pUSD PTickerPEG])]\<rparr>)))
      (ExampleBatch 1 [ExampleTransfer AdrA 5 AdrB, ExampleConversion AdrA 10 pUSD PTickerPEG])
      (Some ExampleRates) 2) = Some InsufficientBalanceErr
   \<and> snd (ApplyTransactionBatchesInHolding
      (ExamplePegnetd (Rated (EmptyTables\<lparr>Holding :=
        [Held 1 (ExampleBatch 1 [ExampleTransfer AdrA 5 AdrB,
           ExampleConversion AdrA 10 pUSD PTickerPEG]),
         Held 1 (ExampleBatch 2 [ExampleConversion AdrB 5 pUSD PTickerPEG])]\<rparr>))) False
      (Fund AdrA pUSD 5 (Rated (EmptyTables\<lparr>Holding :=
        [Held 1 (ExampleBatch 1 [ExampleTransfer AdrA 5 AdrB,
           ExampleConversion AdrA 10 pUSD PTickerPEG]),
         Held 1 (ExampleBatch 2 [ExampleConversion AdrB 5 pUSD PTickerPEG])]\<rparr>))) 2) = None
   \<and> Balances (fst (ApplyTransactionBatchesInHolding
      (ExamplePegnetd (Rated (EmptyTables\<lparr>Holding :=
        [Held 1 (ExampleBatch 1 [ExampleTransfer AdrA 5 AdrB,
           ExampleConversion AdrA 10 pUSD PTickerPEG]),
         Held 1 (ExampleBatch 2 [ExampleConversion AdrB 5 pUSD PTickerPEG])]\<rparr>))) False
      (Fund AdrA pUSD 5 (Rated (EmptyTables\<lparr>Holding :=
        [Held 1 (ExampleBatch 1 [ExampleTransfer AdrA 5 AdrB,
           ExampleConversion AdrA 10 pUSD PTickerPEG]),
         Held 1 (ExampleBatch 2 [ExampleConversion AdrB 5 pUSD PTickerPEG])]\<rparr>))) 2)) (AdrA, pUSD) = 0
   \<and> Balances (fst (ApplyTransactionBatchesInHolding
      (ExamplePegnetd (Rated (EmptyTables\<lparr>Holding :=
        [Held 1 (ExampleBatch 1 [ExampleTransfer AdrA 5 AdrB,
           ExampleConversion AdrA 10 pUSD PTickerPEG]),
         Held 1 (ExampleBatch 2 [ExampleConversion AdrB 5 pUSD PTickerPEG])]\<rparr>))) False
      (Fund AdrA pUSD 5 (Rated (EmptyTables\<lparr>Holding :=
        [Held 1 (ExampleBatch 1 [ExampleTransfer AdrA 5 AdrB,
           ExampleConversion AdrA 10 pUSD PTickerPEG]),
         Held 1 (ExampleBatch 2 [ExampleConversion AdrB 5 pUSD PTickerPEG])]\<rparr>))) 2))
      (AdrB, PTickerPEG) = 2
   \<and> length (Relations (fst (ApplyTransactionBatchesInHolding
      (ExamplePegnetd (Rated (EmptyTables\<lparr>Holding :=
        [Held 1 (ExampleBatch 1 [ExampleTransfer AdrA 5 AdrB,
           ExampleConversion AdrA 10 pUSD PTickerPEG]),
         Held 1 (ExampleBatch 2 [ExampleConversion AdrB 5 pUSD PTickerPEG])]\<rparr>))) False
      (Fund AdrA pUSD 5 (Rated (EmptyTables\<lparr>Holding :=
        [Held 1 (ExampleBatch 1 [ExampleTransfer AdrA 5 AdrB,
           ExampleConversion AdrA 10 pUSD PTickerPEG]),
         Held 1 (ExampleBatch 2 [ExampleConversion AdrB 5 pUSD PTickerPEG])]\<rparr>))) 2))) = 3
   \<and> Balances (fst (ApplyTransactionBatchesInHolding
      (ExamplePegnetd (Rated (EmptyTables\<lparr>Holding :=
        [Held 1 (ExampleBatch 2 [ExampleConversion AdrB 5 pUSD PTickerPEG])]\<rparr>))) False
      (Fund AdrA pUSD 5 (Rated (EmptyTables\<lparr>Holding :=
        [Held 1 (ExampleBatch 2 [ExampleConversion AdrB 5 pUSD PTickerPEG])]\<rparr>))) 2)) (AdrA, pUSD) = 5
   \<and> Balances (fst (ApplyTransactionBatchesInHolding
      (ExamplePegnetd (Rated (EmptyTables\<lparr>Holding :=
        [Held 1 (ExampleBatch 2 [ExampleConversion AdrB 5 pUSD PTickerPEG])]\<rparr>))) False
      (Fund AdrA pUSD 5 (Rated (EmptyTables\<lparr>Holding :=
        [Held 1 (ExampleBatch 2 [ExampleConversion AdrB 5 pUSD PTickerPEG])]\<rparr>))) 2))
      (AdrB, PTickerPEG) = 0
   \<and> Relations (fst (ApplyTransactionBatchesInHolding
      (ExamplePegnetd (Rated (EmptyTables\<lparr>Holding :=
        [Held 1 (ExampleBatch 2 [ExampleConversion AdrB 5 pUSD PTickerPEG])]\<rparr>))) False
      (Fund AdrA pUSD 5 (Rated (EmptyTables\<lparr>Holding :=
        [Held 1 (ExampleBatch 2 [ExampleConversion AdrB 5 pUSD PTickerPEG])]\<rparr>))) 2)) = []"
  by (simp add: code_defs ref_defs ex_defs rate_of_def heights_step heights_done)

text \<open>
  C5, amended. During the holding drain, an \<^verbatim>\<open>InsufficientBalance\<close> from applying a held
  batch is swallowed: the application of that batch ends at the transaction whose debit
  failed, that transaction and the later ones of the batch change nothing, the changes of
  the batch's earlier transactions stay in the block's transaction, and the drain
  continues with the remaining held batches of the window. For every store and every
  collaborator: when a held batch is valid, is not a replay, its transactions before
  \<open>tx\<close> leave the content \<open>sqlTx0\<close> and the debit of \<open>tx\<close> answers
  \<^verbatim>\<open>InsufficientBalanceErr\<close>, then \<^verbatim>\<open>applyTransactionBatch\<close> returns that error with the
  content \<open>sqlTx0\<close>, the step of the drain returns nothing with \<open>sqlTx0\<close>, the loop
  over the batches of the height continues from \<open>sqlTx0\<close> with the batches after it,
  and when the batch is the first one held at the first height of the window,
  \<^verbatim>\<open>ApplyTransactionBatchesInHolding\<close> is the rest of that height from \<open>sqlTx0\<close> and
  then the heights after it.
\<close>

theorem holding_drain_swallows_InsufficientBalance:
  assumes valid: "Validate d txBatch = None"
    and fresh: "IsReplayTransaction (Pegnet d) sqlTx (Hash txBatch) = Inr False"
    and txs: "Transactions txBatch = pre @ tx # rest"
    and earlier: "range_loop (applyTransactionBatch_tx d txBatch rates) 0 pre sqlTx = (sqlTx0, None)"
    and debit: "SubFromBalance (Pegnet d) sqlTx0 (Address (Input tx)) (Type (Input tx))
        (Amount (Input tx)) = Inr (sqlTx0, inputAdrID, Some InsufficientBalanceErr)"
  shows "applyTransactionBatch d sqlTx txBatch rates currentHeight =
      (sqlTx0, Some InsufficientBalanceErr)
    \<and> ApplyTransactionBatchesInHolding_batch d rates currentHeight n txBatch sqlTx = (sqlTx0, None)
    \<and> range_loop (ApplyTransactionBatchesInHolding_batch d rates currentHeight) n
        (txBatch # others) sqlTx =
      range_loop (ApplyTransactionBatchesInHolding_batch d rates currentHeight) (Suc n) others sqlTx0
    \<and> (i < currentHeight \<and>
        SelectTransactionBatchesInHoldingAtHeight (Pegnet d) (ucast i) = Inr (txBatch # others) \<longrightarrow>
        ApplyTransactionBatchesInHolding_heights d sqlTx rates currentHeight i =
          (case range_loop (ApplyTransactionBatchesInHolding_batch d rates currentHeight) (Suc 0)
                  others sqlTx0 of
             (sqlTx2, Some r) \<Rightarrow> (sqlTx2, r)
           | (sqlTx2, None) \<Rightarrow>
              ApplyTransactionBatchesInHolding_heights d sqlTx2 rates currentHeight (i + 1)))
    \<and> (SelectMostRecentRatesBeforeHeight (Pegnet d) sqlTx currentHeight = Inr (unused, i) \<and>
        SelectPendingRates (Pegnet d) sqlTx currentHeight = Inr rates \<and> i < currentHeight \<and>
        SelectTransactionBatchesInHoldingAtHeight (Pegnet d) (ucast i) = Inr (txBatch # others) \<longrightarrow>
        ApplyTransactionBatchesInHolding d ctx sqlTx currentHeight =
          (case range_loop (ApplyTransactionBatchesInHolding_batch d rates currentHeight) (Suc 0)
                  others sqlTx0 of
             (sqlTx2, Some r) \<Rightarrow> (sqlTx2, r)
           | (sqlTx2, None) \<Rightarrow>
              ApplyTransactionBatchesInHolding_heights d sqlTx2 rates currentHeight (i + 1)))"
proof -
  have "applyTransactionBatch_tx d txBatch rates (length pre) tx sqlTx0 =
      (sqlTx0, Some (Some InsufficientBalanceErr))"
    using debit by (simp add: applyTransactionBatch_tx_def)
  then have "range_loop (applyTransactionBatch_tx d txBatch rates) (length pre) (tx # rest) sqlTx0 =
      (sqlTx0, Some (Some InsufficientBalanceErr))"
    by simp
  from applyTransactionBatch_split [OF txs earlier this]
  have short: "applyTransactionBatch d sqlTx txBatch rates currentHeight =
      (sqlTx0, Some InsufficientBalanceErr)" .
  have body: "ApplyTransactionBatchesInHolding_batch d rates currentHeight k txBatch sqlTx =
      (sqlTx0, None)" for k
    using valid fresh short by (simp add: ApplyTransactionBatchesInHolding_batch_def)
  have loop: "ApplyTransactionBatchesInHolding_heights d sqlTx rates currentHeight i =
      (case range_loop (ApplyTransactionBatchesInHolding_batch d rates currentHeight) (Suc 0)
              others sqlTx0 of
         (sqlTx2, Some r) \<Rightarrow> (sqlTx2, r)
       | (sqlTx2, None) \<Rightarrow>
          ApplyTransactionBatchesInHolding_heights d sqlTx2 rates currentHeight (i + 1))"
    if "i < currentHeight"
      "SelectTransactionBatchesInHoldingAtHeight (Pegnet d) (ucast i) = Inr (txBatch # others)"
    using heights_step [OF that] by (simp add: body)
  have drain: "ApplyTransactionBatchesInHolding d ctx sqlTx currentHeight =
      ApplyTransactionBatchesInHolding_heights d sqlTx rates currentHeight i"
    if "SelectMostRecentRatesBeforeHeight (Pegnet d) sqlTx currentHeight = Inr (unused, i)"
      "SelectPendingRates (Pegnet d) sqlTx currentHeight = Inr rates"
    using that by (simp add: ApplyTransactionBatchesInHolding_def)
  from short body loop drain show ?thesis
    by simp
qed

text \<open>
  An instance, the two held batches of the counterexample with the rates of height 2:
  the first batch ends with \<^verbatim>\<open>InsufficientBalanceErr\<close> after its transfer, and the drain
  returns no error after the conversion of the second batch, with one trace line.
\<close>

theorem holding_drain_swallows_InsufficientBalance_witness:
  "applyTransactionBatch
      (ExamplePegnetd (Rated (EmptyTables\<lparr>Holding :=
        [Held 1 (ExampleBatch 1 [ExampleTransfer AdrA 5 AdrB,
           ExampleConversion AdrA 10 pUSD PTickerPEG]),
         Held 1 (ExampleBatch 2 [ExampleConversion AdrB 5 pUSD PTickerPEG])]\<rparr>)))
      (Fund AdrA pUSD 5 (Rated (EmptyTables\<lparr>Holding :=
        [Held 1 (ExampleBatch 1 [ExampleTransfer AdrA 5 AdrB,
           ExampleConversion AdrA 10 pUSD PTickerPEG]),
         Held 1 (ExampleBatch 2 [ExampleConversion AdrB 5 pUSD PTickerPEG])]\<rparr>)))
      (ExampleBatch 1 [ExampleTransfer AdrA 5 AdrB, ExampleConversion AdrA 10 pUSD PTickerPEG])
      (Some ExampleRates) 2 =
     ((Rated (EmptyTables\<lparr>Holding :=
        [Held 1 (ExampleBatch 1 [ExampleTransfer AdrA 5 AdrB,
           ExampleConversion AdrA 10 pUSD PTickerPEG]),
         Held 1 (ExampleBatch 2 [ExampleConversion AdrB 5 pUSD PTickerPEG])]\<rparr>))
        \<lparr>Balances := (\<lambda>key. 0)((AdrA, pUSD) := 0, (AdrB, pUSD) := 5),
         Relations :=
          [\<lparr>Row_AddressID = 0, Row_Hash = replicate 32 1, Row_TxIndex = 0,
             Row_IsOutput = False, Row_IsConversion = False\<rparr>,
           \<lparr>Row_AddressID = 0, Row_Hash = replicate 32 1, Row_TxIndex = 0,
             Row_IsOutput = True, Row_IsConversion = False\<rparr>]\<rparr>,
      Some InsufficientBalanceErr)
   \<and> ApplyTransactionBatchesInHolding
      (ExamplePegnetd (Rated (EmptyTables\<lparr>Holding :=
        [Held 1 (ExampleBatch 1 [ExampleTransfer AdrA 5 AdrB,
           ExampleConversion AdrA 10 pUSD PTickerPEG]),
         Held 1 (ExampleBatch 2 [ExampleConversion AdrB 5 pUSD PTickerPEG])]\<rparr>))) False
      (Fund AdrA pUSD 5 (Rated (EmptyTables\<lparr>Holding :=
        [Held 1 (ExampleBatch 1 [ExampleTransfer AdrA 5 AdrB,
           ExampleConversion AdrA 10 pUSD PTickerPEG]),
         Held 1 (ExampleBatch 2 [ExampleConversion AdrB 5 pUSD PTickerPEG])]\<rparr>))) 2 =
     ((Rated (EmptyTables\<lparr>Holding :=
        [Held 1 (ExampleBatch 1 [ExampleTransfer AdrA 5 AdrB,
           ExampleConversion AdrA 10 pUSD PTickerPEG]),
         Held 1 (ExampleBatch 2 [ExampleConversion AdrB 5 pUSD PTickerPEG])]\<rparr>))
        \<lparr>Balances := (\<lambda>key. 0)((AdrA, pUSD) := 0, (AdrB, pUSD) := 0, (AdrB, PTickerPEG) := 2),
         Relations :=
          [\<lparr>Row_AddressID = 0, Row_Hash = replicate 32 1, Row_TxIndex = 0,
             Row_IsOutput = False, Row_IsConversion = False\<rparr>,
           \<lparr>Row_AddressID = 0, Row_Hash = replicate 32 1, Row_TxIndex = 0,
             Row_IsOutput = True, Row_IsConversion = False\<rparr>,
           \<lparr>Row_AddressID = 0, Row_Hash = replicate 32 2, Row_TxIndex = 0,
             Row_IsOutput = False, Row_IsConversion = True\<rparr>],
         Applied :=
          [\<lparr>Applied_Height = 2, Applied_EntryHash = replicate 32 2, Applied_Conversion = True,
             Applied_Txs = 1\<rparr>]\<rparr>,
      None)"
proof -
  let ?transfer = "ExampleTransfer AdrA 5 AdrB"
  let ?conversion = "ExampleConversion AdrA 10 pUSD PTickerPEG"
  let ?mixed = "ExampleBatch 1 [?transfer, ?conversion]"
  let ?next = "ExampleBatch 2 [ExampleConversion AdrB 5 pUSD PTickerPEG]"
  let ?db = "Rated (EmptyTables\<lparr>Holding := [Held 1 ?mixed, Held 1 ?next]\<rparr>)"
  let ?d = "ExamplePegnetd ?db"
  let ?tx = "Fund AdrA pUSD 5 ?db"
  let ?partial = "?db
        \<lparr>Balances := (\<lambda>key. 0)((AdrA, pUSD) := 0, (AdrB, pUSD) := 5),
         Relations :=
          [\<lparr>Row_AddressID = 0, Row_Hash = replicate 32 1, Row_TxIndex = 0,
             Row_IsOutput = False, Row_IsConversion = False\<rparr>,
           \<lparr>Row_AddressID = 0, Row_Hash = replicate 32 1, Row_TxIndex = 0,
             Row_IsOutput = True, Row_IsConversion = False\<rparr>]\<rparr>"
  let ?after = "?db
        \<lparr>Balances := (\<lambda>key. 0)((AdrA, pUSD) := 0, (AdrB, pUSD) := 0, (AdrB, PTickerPEG) := 2),
         Relations :=
          [\<lparr>Row_AddressID = 0, Row_Hash = replicate 32 1, Row_TxIndex = 0,
             Row_IsOutput = False, Row_IsConversion = False\<rparr>,
           \<lparr>Row_AddressID = 0, Row_Hash = replicate 32 1, Row_TxIndex = 0,
             Row_IsOutput = True, Row_IsConversion = False\<rparr>,
           \<lparr>Row_AddressID = 0, Row_Hash = replicate 32 2, Row_TxIndex = 0,
             Row_IsOutput = False, Row_IsConversion = True\<rparr>],
         Applied :=
          [\<lparr>Applied_Height = 2, Applied_EntryHash = replicate 32 2, Applied_Conversion = True,
             Applied_Txs = 1\<rparr>]\<rparr>"
  have valid: "Validate ?d ?mixed = None"
    by (simp add: ref_defs)
  have fresh: "IsReplayTransaction (Pegnet ?d) ?tx (Hash ?mixed) = Inr False"
    by (simp add: ref_defs ex_defs)
  have txs: "Transactions ?mixed = [?transfer] @ ?conversion # []"
    by (simp add: ex_defs)
  have earlier: "range_loop (applyTransactionBatch_tx ?d ?mixed (Some ExampleRates)) 0 [?transfer]
      ?tx = (?partial, None)"
    by (simp add: code_defs ref_defs ex_defs)
  have debit: "SubFromBalance (Pegnet ?d) ?partial (Address (Input ?conversion))
      (Type (Input ?conversion)) (Amount (Input ?conversion)) =
      Inr (?partial, 0, Some InsufficientBalanceErr)"
    by (simp add: ref_defs ex_defs)
  have window: "SelectMostRecentRatesBeforeHeight (Pegnet ?d) ?tx 2 = Inr (Some ExampleRates, 1) \<and>
      SelectPendingRates (Pegnet ?d) ?tx 2 = Inr (Some ExampleRates) \<and> (1 :: u32) < 2 \<and>
      SelectTransactionBatchesInHoldingAtHeight (Pegnet ?d) (ucast (1 :: u32)) = Inr (?mixed # [?next])"
    by (simp add: ref_defs ex_defs)
  have rest: "range_loop (ApplyTransactionBatchesInHolding_batch ?d (Some ExampleRates) 2) (Suc 0)
      [?next] ?partial = (?after, None)"
    by (simp add: code_defs ref_defs ex_defs rate_of_def)
  have last: "ApplyTransactionBatchesInHolding_heights ?d s (Some ExampleRates) 2 2 = (s, None)"
    for s
    by (simp add: heights_done)
  note claimed = holding_drain_swallows_InsufficientBalance [OF valid fresh txs earlier debit,
      where currentHeight = 2 and others = "[?next]" and i = 1 and unused = "Some ExampleRates"
        and ctx = False]
  from claimed [THEN conjunct1]
  have short: "applyTransactionBatch ?d ?tx ?mixed (Some ExampleRates) 2 =
      (?partial, Some InsufficientBalanceErr)" .
  from claimed [THEN conjunct2, THEN conjunct2, THEN conjunct2, THEN conjunct2] window
  have "ApplyTransactionBatchesInHolding ?d False ?tx 2 =
      (case range_loop (ApplyTransactionBatchesInHolding_batch ?d (Some ExampleRates) 2) (Suc 0)
              [?next] ?partial of
         (sqlTx2, Some r) \<Rightarrow> (sqlTx2, r)
       | (sqlTx2, None) \<Rightarrow>
          ApplyTransactionBatchesInHolding_heights ?d sqlTx2 (Some ExampleRates) 2 (1 + 1))"
    by blast
  then have drained: "ApplyTransactionBatchesInHolding ?d False ?tx 2 = (?after, None)"
    unfolding rest by (simp add: last)
  from short drained show ?thesis
    by (simp only:)
qed

text \<open>
  C1. The claim: every error other than \<^verbatim>\<open>InsufficientBalance\<close> returned while a held
  batch is applied during the drain is propagated by
  \<^verbatim>\<open>ApplyTransactionBatchesInHolding\<close> to its caller. Line 283 returns \<^verbatim>\<open>nil\<close> there.
  The code evaluated at such an input: two batches are held at height 1, each sends
  5 pUSD from an address that has 10, and the store's credits fail. The drain at height
  2 debits the sender of the first batch, files its input row, meets the failure of the
  credit, and returns no error: the content it leaves has the debit without the
  credit, and the second batch was not examined. On the same store the same batch,
  met by \<^verbatim>\<open>ApplyTransactionBlock\<close> as an entry of the block, makes line 329 return the
  error.
\<close>

theorem holding_drain_returns_nil_on_store_fault:
  "ApplyTransactionBatchesInHolding
      (FaultyCredit (ExamplePegnetd (EmptyTables\<lparr>Holding :=
        [Held 1 (ExampleBatch 1 [ExampleTransfer AdrA 5 AdrB]),
         Held 1 (ExampleBatch 2 [ExampleTransfer AdrA 5 AdrB])]\<rparr>)))
      False (Rated (Funded AdrA pUSD 10)) 2 =
    (Rated (Funded AdrA pUSD 10)
      \<lparr>Balances := (\<lambda>key. 0)((AdrA, pUSD) := 5),
       Relations := [\<lparr>Row_AddressID = 0, Row_Hash = replicate 32 1, Row_TxIndex = 0,
         Row_IsOutput = False, Row_IsConversion = False\<rparr>]\<rparr>, None)
   \<and> ApplyTransactionBlock
      (ParsesAs [ExampleTransfer AdrA 5 AdrB] (FaultyCredit (ExamplePegnetd EmptyTables)))
      (Rated (Funded AdrA pUSD 10))
      \<lparr>ChainID = replicate 32 2, EBlock_Height = 2, KeyMR = [],
        Entries = [\<lparr>EntryHash = replicate 32 1, Content = []\<rparr>]\<rparr> =
    (Rated (Funded AdrA pUSD 10)
      \<lparr>Balances := (\<lambda>key. 0)((AdrA, pUSD) := 5),
       Relations := [\<lparr>Row_AddressID = 0, Row_Hash = replicate 32 1, Row_TxIndex = 0,
         Row_IsOutput = False, Row_IsConversion = False\<rparr>]\<rparr>, Some (Fault ''write failed''))"
proof -
  let ?b1 = "ExampleBatch 1 [ExampleTransfer AdrA 5 AdrB]"
  let ?b2 = "ExampleBatch 2 [ExampleTransfer AdrA 5 AdrB]"
  let ?d = "FaultyCredit (ExamplePegnetd (EmptyTables\<lparr>Holding := [Held 1 ?b1, Held 1 ?b2]\<rparr>))"
  let ?tx = "Rated (Funded AdrA pUSD 10)"
  let ?left = "?tx\<lparr>Balances := (\<lambda>key. 0)((AdrA, pUSD) := 5),
       Relations := [\<lparr>Row_AddressID = 0, Row_Hash = replicate 32 1, Row_TxIndex = 0,
         Row_IsOutput = False, Row_IsConversion = False\<rparr>]\<rparr>"
  have before: "SelectMostRecentRatesBeforeHeight (Pegnet ?d) ?tx 2 = Inr (Some ExampleRates, 1)"
    by (simp add: ref_defs ex_defs)
  have pending: "SelectPendingRates (Pegnet ?d) ?tx 2 = Inr (Some ExampleRates)"
    by (simp add: ref_defs ex_defs)
  have held: "SelectTransactionBatchesInHoldingAtHeight (Pegnet ?d) (ucast (1 :: u32)) =
      Inr [?b1, ?b2]"
    by (simp add: ref_defs ex_defs)
  have applied: "applyTransactionBatch ?d ?tx ?b1 (Some ExampleRates) 2 =
      (?left, Some (Fault ''write failed''))"
    by (simp add: code_defs ref_defs ex_defs)
  have body: "ApplyTransactionBatchesInHolding_batch ?d (Some ExampleRates) 2 0 ?b1 ?tx =
      (?left, Some None)"
    using applied by (simp add: ApplyTransactionBatchesInHolding_batch_def ref_defs ex_defs)
  have "ApplyTransactionBatchesInHolding_heights ?d ?tx (Some ExampleRates) 2 1 = (?left, None)"
    using heights_step [OF _ held, of 2 ?tx "Some ExampleRates"] body by simp
  then have drain: "ApplyTransactionBatchesInHolding ?d False ?tx 2 = (?left, None)"
    using before pending by (simp add: ApplyTransactionBatchesInHolding_def)
  have block: "ApplyTransactionBlock
      (ParsesAs [ExampleTransfer AdrA 5 AdrB] (FaultyCredit (ExamplePegnetd EmptyTables))) ?tx
      \<lparr>ChainID = replicate 32 2, EBlock_Height = 2, KeyMR = [],
        Entries = [\<lparr>EntryHash = replicate 32 1, Content = []\<rparr>]\<rparr> =
      (?left, Some (Fault ''write failed''))"
    by (simp add: code_defs ref_defs ex_defs)
  from drain block show ?thesis
    by simp
qed

text \<open>
  C3, a counterexample. The claim: when the input rate or the target rate of a
  conversion is zero, only that transaction is dropped, and the remaining
  transactions of the batch are still applied. A batch converts 7 pXAU to PEG and then
  sends 5 pUSD; pXAU is quoted at 0. Its application returns \<^verbatim>\<open>nil\<close>, the 7 pXAU are
  debited and no PEG is credited, but the transfer that follows is not applied: the
  sender keeps the 5 pUSD and the receiver has none.
\<close>

theorem zero_rate_conversion_ends_batch_counterexample:
  "snd (applyTransactionBatch (ExamplePegnetd EmptyTables)
        (Fund AdrA pUSD 5 (Funded AdrA pXAU 7))
        (ExampleBatch 1 [ExampleConversion AdrA 7 pXAU PTickerPEG, ExampleTransfer AdrA 5 AdrB])
        (Some ExampleRates) 2) = None
   \<and> Balances (fst (applyTransactionBatch (ExamplePegnetd EmptyTables)
        (Fund AdrA pUSD 5 (Funded AdrA pXAU 7))
        (ExampleBatch 1 [ExampleConversion AdrA 7 pXAU PTickerPEG, ExampleTransfer AdrA 5 AdrB])
        (Some ExampleRates) 2)) (AdrA, pXAU) = 0
   \<and> Balances (fst (applyTransactionBatch (ExamplePegnetd EmptyTables)
        (Fund AdrA pUSD 5 (Funded AdrA pXAU 7))
        (ExampleBatch 1 [ExampleConversion AdrA 7 pXAU PTickerPEG, ExampleTransfer AdrA 5 AdrB])
        (Some ExampleRates) 2)) (AdrA, PTickerPEG) = 0
   \<and> Balances (fst (applyTransactionBatch (ExamplePegnetd EmptyTables)
        (Fund AdrA pUSD 5 (Funded AdrA pXAU 7))
        (ExampleBatch 1 [ExampleConversion AdrA 7 pXAU PTickerPEG, ExampleTransfer AdrA 5 AdrB])
        (Some ExampleRates) 2)) (AdrA, pUSD) = 5
   \<and> Balances (fst (applyTransactionBatch (ExamplePegnetd EmptyTables)
        (Fund AdrA pUSD 5 (Funded AdrA pXAU 7))
        (ExampleBatch 1 [ExampleConversion AdrA 7 pXAU PTickerPEG, ExampleTransfer AdrA 5 AdrB])
        (Some ExampleRates) 2)) (AdrB, pUSD) = 0"
  by (simp add: code_defs ref_defs ex_defs rate_of_def)

text \<open>
  C3, amended. When the input rate or the target rate of a conversion is zero, the
  application of the batch ends at that transaction and returns \<^verbatim>\<open>nil\<close>: what the
  batch leaves is the content after that transaction's debit and input-side relation
  row (no credit is made, so the value is burned), and the transactions after it in
  the batch are not applied. For every store and collaborator, with \<open>pre\<close> the
  transactions before it, applied in full.
\<close>

theorem zero_rate_conversion_ends_batch:
  assumes txs: "Transactions txBatch = pre @ tx # rest"
    and earlier: "range_loop (applyTransactionBatch_tx d txBatch rates) 0 pre sqlTx = (sqlTx0, None)"
    and debit: "SubFromBalance (Pegnet d) sqlTx0 (Address (Input tx)) (Type (Input tx))
        (Amount (Input tx)) = Inr (sqlTx1, inputAdrID, None)"
    and row: "InsertTransactionRelation (Pegnet d) sqlTx1 inputAdrID (Hash txBatch)
        (word_of_nat (length pre)) False (IsConversion tx) = Inr sqlTx2"
    and conv: "Conversion tx = Some target"
    and quoted: "rates = Some r" "r \<noteq> []"
    and zero: "rate_of r (Type (Input tx)) = 0 \<or> rate_of r target = 0"
  shows "applyTransactionBatch d sqlTx txBatch rates currentHeight = (sqlTx2, None)"
proof -
  have "applyTransactionBatch_tx d txBatch rates (length pre) tx sqlTx0 = (sqlTx2, Some None)"
    using debit row conv quoted zero by (auto simp add: applyTransactionBatch_tx_def)
  then have "range_loop (applyTransactionBatch_tx d txBatch rates) (length pre) (tx # rest) sqlTx0 =
      (sqlTx2, Some None)"
    by simp
  from applyTransactionBatch_split [OF txs earlier this] show ?thesis .
qed

theorem zero_rate_conversion_ends_batch_witness:
  "applyTransactionBatch (ExamplePegnetd EmptyTables) (Fund AdrA pUSD 5 (Funded AdrA pXAU 7))
      (ExampleBatch 1 [ExampleConversion AdrA 7 pXAU PTickerPEG, ExampleTransfer AdrA 5 AdrB])
      (Some ExampleRates) 2 =
    (EmptyTables
      \<lparr>Balances := (\<lambda>key. 0)((AdrA, pXAU) := 0, (AdrA, pUSD) := 5),
       Relations := [\<lparr>Row_AddressID = 0, Row_Hash = replicate 32 1, Row_TxIndex = 0,
         Row_IsOutput = False, Row_IsConversion = True\<rparr>]\<rparr>, None)"
proof -
  let ?conv = "ExampleConversion AdrA 7 pXAU PTickerPEG"
  let ?b = "ExampleBatch 1 [?conv, ExampleTransfer AdrA 5 AdrB]"
  let ?d = "ExamplePegnetd EmptyTables"
  let ?tx = "Fund AdrA pUSD 5 (Funded AdrA pXAU 7)"
  let ?debited = "EmptyTables\<lparr>Balances := (\<lambda>key. 0)((AdrA, pXAU) := 0, (AdrA, pUSD) := 5)\<rparr>"
  let ?left = "EmptyTables
      \<lparr>Balances := (\<lambda>key. 0)((AdrA, pXAU) := 0, (AdrA, pUSD) := 5),
       Relations := [\<lparr>Row_AddressID = 0, Row_Hash = replicate 32 1, Row_TxIndex = 0,
         Row_IsOutput = False, Row_IsConversion = True\<rparr>]\<rparr>"
  have txs: "Transactions ?b = [] @ ?conv # [ExampleTransfer AdrA 5 AdrB]"
    by (simp add: ex_defs)
  have earlier: "range_loop (applyTransactionBatch_tx ?d ?b (Some ExampleRates)) 0 [] ?tx =
      (?tx, None)"
    by simp
  have debit: "SubFromBalance (Pegnet ?d) ?tx (Address (Input ?conv)) (Type (Input ?conv))
      (Amount (Input ?conv)) = Inr (?debited, 0, None)"
    by (simp add: ref_defs ex_defs fun_upd_twist)
  have row: "InsertTransactionRelation (Pegnet ?d) ?debited 0 (Hash ?b) (word_of_nat (length []))
      False (IsConversion ?conv) = Inr ?left"
    by (simp add: ref_defs ex_defs)
  have conv: "Conversion ?conv = Some PTickerPEG"
    by (simp add: ex_defs)
  have zero: "rate_of ExampleRates (Type (Input ?conv)) = 0 \<or> rate_of ExampleRates PTickerPEG = 0"
    by (simp add: ex_defs rate_of_def)
  have quoted: "ExampleRates \<noteq> []"
    by (simp add: ex_defs)
  from zero_rate_conversion_ends_batch [OF txs earlier debit row conv refl quoted zero]
  show ?thesis .
qed

text \<open>
  C4, a counterexample. The claim: if any transaction of a batch fails its debit with
  \<^verbatim>\<open>InsufficientBalance\<close>, no mutation of the batch is visible (no balance change and
  no relation row of any of its transactions). A batch sends 5 pUSD and then 10 pUSD
  from an address that has 5. Its application returns \<^verbatim>\<open>InsufficientBalanceErr\<close> at the
  second transaction, and the first transaction stays applied: the sender is left
  with 0, the receiver with 5, and two relation rows are filed.
\<close>

theorem InsufficientBalance_keeps_earlier_transactions_counterexample:
  "snd (applyTransactionBatch (ExamplePegnetd EmptyTables) (Funded AdrA pUSD 5)
      (ExampleBatch 1 [ExampleTransfer AdrA 5 AdrB, ExampleTransfer AdrA 10 AdrB]) None 2) =
     Some InsufficientBalanceErr
   \<and> Balances (fst (applyTransactionBatch (ExamplePegnetd EmptyTables) (Funded AdrA pUSD 5)
      (ExampleBatch 1 [ExampleTransfer AdrA 5 AdrB, ExampleTransfer AdrA 10 AdrB]) None 2))
      (AdrA, pUSD) = 0
   \<and> Balances (Funded AdrA pUSD 5) (AdrA, pUSD) = 5
   \<and> Balances (fst (applyTransactionBatch (ExamplePegnetd EmptyTables) (Funded AdrA pUSD 5)
      (ExampleBatch 1 [ExampleTransfer AdrA 5 AdrB, ExampleTransfer AdrA 10 AdrB]) None 2))
      (AdrB, pUSD) = 5
   \<and> Balances (Funded AdrA pUSD 5) (AdrB, pUSD) = 0
   \<and> length (Relations (fst (applyTransactionBatch (ExamplePegnetd EmptyTables)
      (Funded AdrA pUSD 5)
      (ExampleBatch 1 [ExampleTransfer AdrA 5 AdrB, ExampleTransfer AdrA 10 AdrB]) None 2))) = 2
   \<and> Relations (Funded AdrA pUSD 5) = []"
  by (simp add: code_defs ref_defs ex_defs)

text \<open>
  C4, amended. If a transaction of a batch fails its debit with
  \<^verbatim>\<open>InsufficientBalance\<close> (the store answering before it changes anything), the
  application of the batch ends there with \<^verbatim>\<open>InsufficientBalanceErr\<close>: that transaction
  and those after it change nothing, and what the batch leaves is the content
  \<open>sqlTx0\<close> made by its earlier transactions \<open>pre\<close>, which is the content before the
  batch when the failing transaction is its first. In \<^verbatim>\<open>ApplyTransactionBlock\<close> the
  loop then goes on with the entries after this one from \<open>sqlTx0\<close>, and returns no
  error on account of this batch. For every store and collaborator.
\<close>

theorem InsufficientBalance_keeps_earlier_transactions:
  assumes txs: "Transactions txBatch = pre @ tx # rest"
    and earlier: "range_loop (applyTransactionBatch_tx d txBatch rates) 0 pre sqlTx = (sqlTx0, None)"
    and debit: "SubFromBalance (Pegnet d) sqlTx0 (Address (Input tx)) (Type (Input tx))
        (Amount (Input tx)) = Inr (sqlTx0, inputAdrID, Some InsufficientBalanceErr)"
  shows "applyTransactionBatch d sqlTx txBatch rates currentHeight =
      (sqlTx0, Some InsufficientBalanceErr)
    \<and> (pre = [] \<longrightarrow> sqlTx0 = sqlTx)
    \<and> (UnmarshalEntry d (NewTransactionBatch entry) = Inr txBatch \<and> Validate d txBatch = None \<and>
        IsReplayTransaction (Pegnet d) sqlTx (Hash txBatch) = Inr False \<and>
        \<not> HasConversions txBatch \<and> rates = None \<and> currentHeight = EBlock_Height eblock \<longrightarrow>
        range_loop (ApplyTransactionBlock_entry d eblock) n (entry # others) sqlTx =
        range_loop (ApplyTransactionBlock_entry d eblock) (Suc n) others sqlTx0)"
proof -
  have "applyTransactionBatch_tx d txBatch rates (length pre) tx sqlTx0 =
      (sqlTx0, Some (Some InsufficientBalanceErr))"
    using debit by (simp add: applyTransactionBatch_tx_def)
  then have "range_loop (applyTransactionBatch_tx d txBatch rates) (length pre) (tx # rest) sqlTx0 =
      (sqlTx0, Some (Some InsufficientBalanceErr))"
    by simp
  from applyTransactionBatch_split [OF txs earlier this]
  have batch: "applyTransactionBatch d sqlTx txBatch rates currentHeight =
      (sqlTx0, Some InsufficientBalanceErr)" .
  have first: "pre = [] \<longrightarrow> sqlTx0 = sqlTx"
    using earlier by auto
  from batch first show ?thesis
    by (auto simp add: ApplyTransactionBlock_entry_def)
qed

theorem InsufficientBalance_keeps_earlier_transactions_witness:
  "applyTransactionBatch (ParsesAs [ExampleTransfer AdrA 5 AdrB, ExampleTransfer AdrA 10 AdrB]
        (ExamplePegnetd EmptyTables)) (Funded AdrA pUSD 5)
      (ExampleBatch 1 [ExampleTransfer AdrA 5 AdrB, ExampleTransfer AdrA 10 AdrB]) None 2 =
     (EmptyTables
        \<lparr>Balances := (\<lambda>key. 0)((AdrA, pUSD) := 0, (AdrB, pUSD) := 5),
         Relations :=
          [\<lparr>Row_AddressID = 0, Row_Hash = replicate 32 1, Row_TxIndex = 0,
             Row_IsOutput = False, Row_IsConversion = False\<rparr>,
           \<lparr>Row_AddressID = 0, Row_Hash = replicate 32 1, Row_TxIndex = 0,
             Row_IsOutput = True, Row_IsConversion = False\<rparr>]\<rparr>,
      Some InsufficientBalanceErr)
   \<and> range_loop (ApplyTransactionBlock_entry
        (ParsesAs [ExampleTransfer AdrA 5 AdrB, ExampleTransfer AdrA 10 AdrB]
          (ExamplePegnetd EmptyTables))
        \<lparr>ChainID = replicate 32 2, EBlock_Height = 2, KeyMR = [], Entries = []\<rparr>) 0
        [\<lparr>EntryHash = replicate 32 1, Content = []\<rparr>] (Funded AdrA pUSD 5) =
     (EmptyTables
        \<lparr>Balances := (\<lambda>key. 0)((AdrA, pUSD) := 0, (AdrB, pUSD) := 5),
         Relations :=
          [\<lparr>Row_AddressID = 0, Row_Hash = replicate 32 1, Row_TxIndex = 0,
             Row_IsOutput = False, Row_IsConversion = False\<rparr>,
           \<lparr>Row_AddressID = 0, Row_Hash = replicate 32 1, Row_TxIndex = 0,
             Row_IsOutput = True, Row_IsConversion = False\<rparr>]\<rparr>,
      None)"
proof -
  let ?txs = "[ExampleTransfer AdrA 5 AdrB, ExampleTransfer AdrA 10 AdrB]"
  let ?b = "ExampleBatch 1 ?txs"
  let ?d = "ParsesAs ?txs (ExamplePegnetd EmptyTables)"
  let ?tx = "Funded AdrA pUSD 5"
  let ?left = "EmptyTables
        \<lparr>Balances := (\<lambda>key. 0)((AdrA, pUSD) := 0, (AdrB, pUSD) := 5),
         Relations :=
          [\<lparr>Row_AddressID = 0, Row_Hash = replicate 32 1, Row_TxIndex = 0,
             Row_IsOutput = False, Row_IsConversion = False\<rparr>,
           \<lparr>Row_AddressID = 0, Row_Hash = replicate 32 1, Row_TxIndex = 0,
             Row_IsOutput = True, Row_IsConversion = False\<rparr>]\<rparr>"
  let ?eb = "\<lparr>ChainID = replicate 32 2, EBlock_Height = 2, KeyMR = [], Entries = []\<rparr>"
  let ?entry = "\<lparr>EntryHash = replicate 32 1, Content = []\<rparr>"
  have txs: "Transactions ?b = [ExampleTransfer AdrA 5 AdrB] @ ExampleTransfer AdrA 10 AdrB # []"
    by (simp add: ex_defs)
  have earlier: "range_loop (applyTransactionBatch_tx ?d ?b None) 0 [ExampleTransfer AdrA 5 AdrB]
      ?tx = (?left, None)"
    by (simp add: code_defs ref_defs ex_defs)
  have debit: "SubFromBalance (Pegnet ?d) ?left (Address (Input (ExampleTransfer AdrA 10 AdrB)))
      (Type (Input (ExampleTransfer AdrA 10 AdrB))) (Amount (Input (ExampleTransfer AdrA 10 AdrB))) =
      Inr (?left, 0, Some InsufficientBalanceErr)"
    by (simp add: code_defs ref_defs ex_defs)
  have entry: "UnmarshalEntry ?d (NewTransactionBatch ?entry) = Inr ?b \<and> Validate ?d ?b = None \<and>
      IsReplayTransaction (Pegnet ?d) ?tx (Hash ?b) = Inr False \<and> \<not> HasConversions ?b \<and>
      (None :: Rates option) = None \<and> (2 :: u32) = EBlock_Height ?eb"
    by (simp add: ref_defs ex_defs)
  from InsufficientBalance_keeps_earlier_transactions
    [OF txs earlier debit, of 2 ?entry ?eb 0 "[]"] entry
  show ?thesis
    by (simp del: range_loop.simps add: range_loop.simps(1))
qed

text \<open>
  C6, a counterexample. The claim ends: on heights without winners the holding queue is
  untouched. At height 2 of an empty ledger the transaction chain has one entry, a
  conversion of 5 pUSD by A. With no graded block, and also with a graded block that
  has no winner, \<^verbatim>\<open>SyncBlock\<close> returns no error, records no rate epoch, and the holding
  queue goes from empty to that batch, entered at height 2.
\<close>

theorem SyncBlock_phases_in_order_counterexample:
  "Holding EmptyTables = []
   \<and> snd (SyncBlock
      (WithTransactions [\<lparr>EntryHash = replicate 32 1, Content = []\<rparr>]
        (ParsesAs [ExampleConversion AdrA 5 pUSD PTickerPEG] (ExamplePegnetd EmptyTables))) False EmptyTables 2) = None
   \<and> Holding (fst (SyncBlock
      (WithTransactions [\<lparr>EntryHash = replicate 32 1, Content = []\<rparr>]
        (ParsesAs [ExampleConversion AdrA 5 pUSD PTickerPEG] (ExamplePegnetd EmptyTables))) False EmptyTables 2)) =
     [\<lparr>Held_Batch = ExampleBatch 1 [ExampleConversion AdrA 5 pUSD PTickerPEG], Held_Height = 2, Held_KeyMR = []\<rparr>]
   \<and> RateTable (fst (SyncBlock
      (WithTransactions [\<lparr>EntryHash = replicate 32 1, Content = []\<rparr>]
        (ParsesAs [ExampleConversion AdrA 5 pUSD PTickerPEG] (ExamplePegnetd EmptyTables))) False EmptyTables 2)) = []
   \<and> snd (SyncBlock
      (WithTransactions [\<lparr>EntryHash = replicate 32 1, Content = []\<rparr>]
        (ParsesAs [ExampleConversion AdrA 5 pUSD PTickerPEG]
          (GradesAs \<lparr>Winners = []\<rparr> (ExamplePegnetd EmptyTables)))) False EmptyTables 2) = None
   \<and> Holding (fst (SyncBlock
      (WithTransactions [\<lparr>EntryHash = replicate 32 1, Content = []\<rparr>]
        (ParsesAs [ExampleConversion AdrA 5 pUSD PTickerPEG]
          (GradesAs \<lparr>Winners = []\<rparr> (ExamplePegnetd EmptyTables)))) False EmptyTables 2)) =
     [\<lparr>Held_Batch = ExampleBatch 1 [ExampleConversion AdrA 5 pUSD PTickerPEG], Held_Height = 2, Held_KeyMR = []\<rparr>]
   \<and> RateTable (fst (SyncBlock
      (WithTransactions [\<lparr>EntryHash = replicate 32 1, Content = []\<rparr>]
        (ParsesAs [ExampleConversion AdrA 5 pUSD PTickerPEG]
          (GradesAs \<lparr>Winners = []\<rparr> (ExamplePegnetd EmptyTables)))) False EmptyTables 2)) = []"
  by (simp add: pass_defs WithTransactions_def code_defs ref_defs ex_defs
      ApplyGradedOPRBlock_winner_def)

text \<open>
  C6, amended. Within \<^verbatim>\<open>SyncBlock\<close> for a height, the phases run in the fixed order grading
  persistence, holding drain, current-block transfers, burns, PEG rewards; a rate epoch
  for the height is recorded only if grading produced at least one winner (the rate
  vector of \<^verbatim>\<open>winners[0]\<close>), and the drain runs only on heights with at least one
  winner: on heights without winners no held batch is examined or applied, while the
  conversion batches of the height itself still enter the holding queue in the
  current-block transfers. For every store and collaborator, once the fetches and the
  grader have answered: with no graded block the height is the transfers and then the
  burns; with a graded block without winners it is the persisting of the graded block,
  then the transfers, the burns and the rewards, with no rate written and no drain; with
  a winner it is the persisting of the graded block, the rate vector of the first winner
  written at this height, the drain, the transfers, the burns and the rewards. Each step
  runs on what the step before left and the first error ends the call. And whether or
  not there is a winner, the transfers phase whose first entry is a valid batch with a
  conversion that is not a replay inserts that batch into holding at the height of the
  entry block and goes on with the entries after it.
\<close>

theorem SyncBlock_phases_in_order:
  assumes live: "\<not> isDone ctx"
    and dblock: "DBlock_Get d height = Inr dblock"
    and opr: "SyncBlock_fetch d (DBlock_EBlock dblock (OPRChain d)) = Inr oprEBlock"
    and txs: "SyncBlock_fetch d (DBlock_EBlock dblock (TransactionChain d)) = Inr transactionsEBlock"
    and graded: "Grade d ctx oprEBlock = Inr gradedBlock"
  shows "(gradedBlock = None \<longrightarrow>
        SyncBlock d ctx tx height =
          in_order
            [current_block_transfers d transactionsEBlock,
             (\<lambda>s. ApplyFactoidBlock d ctx s dblock)] tx)
    \<and> (\<forall>g. gradedBlock = Some g \<and> Winners g = [] \<longrightarrow>
        SyncBlock d ctx tx height =
          in_order
            [store_write (\<lambda>s. InsertGradeBlock (Pegnet d) s oprEBlock g),
             current_block_transfers d transactionsEBlock,
             (\<lambda>s. ApplyFactoidBlock d ctx s dblock),
             (\<lambda>s. ApplyGradedOPRBlock d s g)] tx)
    \<and> (\<forall>g winner others. gradedBlock = Some g \<and> Winners g = winner # others \<longrightarrow>
        SyncBlock d ctx tx height =
          in_order
            [store_write (\<lambda>s. InsertGradeBlock (Pegnet d) s oprEBlock g),
             store_write (\<lambda>s. InsertRate (Pegnet d) s height (OPR_Assets winner)),
             (\<lambda>s. ApplyTransactionBatchesInHolding d ctx s height),
             current_block_transfers d transactionsEBlock,
             (\<lambda>s. ApplyFactoidBlock d ctx s dblock),
             (\<lambda>s. ApplyGradedOPRBlock d s g)] tx)
    \<and> (transactionsEBlock = Some eblock \<and> Entries eblock = entry # entries \<and>
        UnmarshalEntry d (NewTransactionBatch entry) = Inr txBatch \<and> Validate d txBatch = None \<and>
        IsReplayTransaction (Pegnet d) s (Hash txBatch) = Inr False \<and> HasConversions txBatch \<longrightarrow>
        current_block_transfers d transactionsEBlock s =
          (case InsertTransactionBatchHolding (Pegnet d) s txBatch (ucast (EBlock_Height eblock))
                  (KeyMR eblock) of
             Inl err \<Rightarrow> (s, Some err)
           | Inr s1 \<Rightarrow> range_loop (ApplyTransactionBlock_entry d eblock) (Suc 0) entries s1))"
proof -
  have start: "SyncBlock d ctx tx height =
      (case SyncBlock_grading d tx height oprEBlock gradedBlock of
         (tx1, Some err) \<Rightarrow> (tx1, Some err)
       | (tx1, None) \<Rightarrow> SyncBlock_apply d ctx tx1 height dblock transactionsEBlock gradedBlock)"
    using assms by (simp add: SyncBlock_def)
  have none: "SyncBlock d ctx tx height =
      in_order [current_block_transfers d transactionsEBlock,
        (\<lambda>s. ApplyFactoidBlock d ctx s dblock)] tx" if "gradedBlock = None"
    using that
    by (simp add: start SyncBlock_grading_def SyncBlock_apply_def current_block_transfers_def
        result_eta)
  have empty: "SyncBlock d ctx tx height =
      in_order [store_write (\<lambda>s. InsertGradeBlock (Pegnet d) s oprEBlock g),
        current_block_transfers d transactionsEBlock,
        (\<lambda>s. ApplyFactoidBlock d ctx s dblock),
        (\<lambda>s. ApplyGradedOPRBlock d s g)] tx" if "gradedBlock = Some g" "Winners g = []" for g
  proof (cases "InsertGradeBlock (Pegnet d) tx oprEBlock g")
    case (Inl err)
    with that show ?thesis
      by (simp add: start SyncBlock_grading_def store_write_def)
  next
    case (Inr tx1)
    with that show ?thesis
      by (simp add: start SyncBlock_grading_def SyncBlock_apply_def current_block_transfers_def
          store_write_def result_eta)
  qed
  have winners: "SyncBlock d ctx tx height =
      in_order [store_write (\<lambda>s. InsertGradeBlock (Pegnet d) s oprEBlock g),
        store_write (\<lambda>s. InsertRate (Pegnet d) s height (OPR_Assets winner)),
        (\<lambda>s. ApplyTransactionBatchesInHolding d ctx s height),
        current_block_transfers d transactionsEBlock,
        (\<lambda>s. ApplyFactoidBlock d ctx s dblock),
        (\<lambda>s. ApplyGradedOPRBlock d s g)] tx"
    if "gradedBlock = Some g" "Winners g = winner # others" for g winner others
  proof (cases "InsertGradeBlock (Pegnet d) tx oprEBlock g")
    case (Inl err)
    with that show ?thesis
      by (simp add: start SyncBlock_grading_def store_write_def)
  next
    case graded: (Inr tx1)
    show ?thesis
    proof (cases "InsertRate (Pegnet d) tx1 height (OPR_Assets winner)")
      case (Inl err)
      with that graded show ?thesis
        by (simp add: start SyncBlock_grading_def store_write_def)
    next
      case (Inr tx2)
      with that graded show ?thesis
        by (simp add: start SyncBlock_grading_def SyncBlock_apply_def current_block_transfers_def
            store_write_def result_eta)
    qed
  qed
  have enters: "current_block_transfers d transactionsEBlock s =
      (case InsertTransactionBatchHolding (Pegnet d) s txBatch (ucast (EBlock_Height eblock))
              (KeyMR eblock) of
         Inl err \<Rightarrow> (s, Some err)
       | Inr s1 \<Rightarrow> range_loop (ApplyTransactionBlock_entry d eblock) (Suc 0) entries s1)"
    if "transactionsEBlock = Some eblock" "Entries eblock = entry # entries"
      "UnmarshalEntry d (NewTransactionBatch entry) = Inr txBatch" "Validate d txBatch = None"
      "IsReplayTransaction (Pegnet d) s (Hash txBatch) = Inr False" "HasConversions txBatch"
    using that
    by (simp add: current_block_transfers_def ApplyTransactionBlock_def
        ApplyTransactionBlock_entry_def split: sum.split)
  from none empty winners have phases:
    "(gradedBlock = None \<longrightarrow>
        SyncBlock d ctx tx height =
          in_order
            [current_block_transfers d transactionsEBlock,
             (\<lambda>s. ApplyFactoidBlock d ctx s dblock)] tx)
    \<and> (\<forall>g. gradedBlock = Some g \<and> Winners g = [] \<longrightarrow>
        SyncBlock d ctx tx height =
          in_order
            [store_write (\<lambda>s. InsertGradeBlock (Pegnet d) s oprEBlock g),
             current_block_transfers d transactionsEBlock,
             (\<lambda>s. ApplyFactoidBlock d ctx s dblock),
             (\<lambda>s. ApplyGradedOPRBlock d s g)] tx)
    \<and> (\<forall>g winner others. gradedBlock = Some g \<and> Winners g = winner # others \<longrightarrow>
        SyncBlock d ctx tx height =
          in_order
            [store_write (\<lambda>s. InsertGradeBlock (Pegnet d) s oprEBlock g),
             store_write (\<lambda>s. InsertRate (Pegnet d) s height (OPR_Assets winner)),
             (\<lambda>s. ApplyTransactionBatchesInHolding d ctx s height),
             current_block_transfers d transactionsEBlock,
             (\<lambda>s. ApplyFactoidBlock d ctx s dblock),
             (\<lambda>s. ApplyGradedOPRBlock d s g)] tx)"
    by blast
  from enters have "transactionsEBlock = Some eblock \<and> Entries eblock = entry # entries \<and>
        UnmarshalEntry d (NewTransactionBatch entry) = Inr txBatch \<and> Validate d txBatch = None \<and>
        IsReplayTransaction (Pegnet d) s (Hash txBatch) = Inr False \<and> HasConversions txBatch \<longrightarrow>
        current_block_transfers d transactionsEBlock s =
          (case InsertTransactionBatchHolding (Pegnet d) s txBatch (ucast (EBlock_Height eblock))
                  (KeyMR eblock) of
             Inl err \<Rightarrow> (s, Some err)
           | Inr s1 \<Rightarrow> range_loop (ApplyTransactionBlock_entry d eblock) (Suc 0) entries s1)"
    by (intro impI) (elim conjE)
  with phases show ?thesis
    by (intro conjI) (elim conjE, assumption)+
qed

text \<open>
  Three instances on the reference store at height 2. With a winner every phase writes:
  the rate vector is recorded at 2, the drain converts the 10 pUSD of A held since
  height 1 into 4 PEG, the transfer of the block sends those 4 PEG to B (A has them only
  once the drain has run), the burn credits A with 100 pFCT and the reward pays B 100 PEG.
  With a graded block without winners, and with no graded block, no rate is recorded and
  the conversion of the block enters holding.
\<close>

theorem SyncBlock_phases_in_order_witness:
  "SyncBlock
      (WithTransactions [\<lparr>EntryHash = replicate 32 7, Content = []\<rparr>]
        (ParsesAs [\<lparr>Input = \<lparr>Address = AdrA, Amount = 4, Type = PTickerPEG\<rparr>,
            Transfers = [\<lparr>Address = AdrB, Amount = 4\<rparr>], Conversion = None\<rparr>]
          (WithFBlock [\<lparr>FCTInputs = [ExampleIO 100 AdrA], FCTOutputs = [],
            ECOutputs = [ExampleIO 0 (replicate 32 3)]\<rparr>]
            (AddressesAs AdrB (GradesAs \<lparr>Winners = [ExampleWinner]\<rparr>
              (ExamplePegnetd (Fund AdrA pUSD 10 (EmptyTables\<lparr>Holding := [Held 1 (ExampleBatch 1 [ExampleConversion AdrA 10 pUSD PTickerPEG])],
          RateTable := [(1, ExampleRates)]\<rparr>)))))))) False
      (Fund AdrA pUSD 10 (EmptyTables\<lparr>Holding := [Held 1 (ExampleBatch 1 [ExampleConversion AdrA 10 pUSD PTickerPEG])],
          RateTable := [(1, ExampleRates)]\<rparr>)) 2 =
    in_order
      [store_write (\<lambda>s. InsertGradeBlock (Pegnet (WithTransactions [\<lparr>EntryHash = replicate 32 7, Content = []\<rparr>]
        (ParsesAs [\<lparr>Input = \<lparr>Address = AdrA, Amount = 4, Type = PTickerPEG\<rparr>,
            Transfers = [\<lparr>Address = AdrB, Amount = 4\<rparr>], Conversion = None\<rparr>]
          (WithFBlock [\<lparr>FCTInputs = [ExampleIO 100 AdrA], FCTOutputs = [],
            ECOutputs = [ExampleIO 0 (replicate 32 3)]\<rparr>]
            (AddressesAs AdrB (GradesAs \<lparr>Winners = [ExampleWinner]\<rparr>
              (ExamplePegnetd (Fund AdrA pUSD 10 (EmptyTables\<lparr>Holding := [Held 1 (ExampleBatch 1 [ExampleConversion AdrA 10 pUSD PTickerPEG])],
          RateTable := [(1, ExampleRates)]\<rparr>))))))))) s None \<lparr>Winners = [ExampleWinner]\<rparr>),
       store_write (\<lambda>s. InsertRate (Pegnet (WithTransactions [\<lparr>EntryHash = replicate 32 7, Content = []\<rparr>]
        (ParsesAs [\<lparr>Input = \<lparr>Address = AdrA, Amount = 4, Type = PTickerPEG\<rparr>,
            Transfers = [\<lparr>Address = AdrB, Amount = 4\<rparr>], Conversion = None\<rparr>]
          (WithFBlock [\<lparr>FCTInputs = [ExampleIO 100 AdrA], FCTOutputs = [],
            ECOutputs = [ExampleIO 0 (replicate 32 3)]\<rparr>]
            (AddressesAs AdrB (GradesAs \<lparr>Winners = [ExampleWinner]\<rparr>
              (ExamplePegnetd (Fund AdrA pUSD 10 (EmptyTables\<lparr>Holding := [Held 1 (ExampleBatch 1 [ExampleConversion AdrA 10 pUSD PTickerPEG])],
          RateTable := [(1, ExampleRates)]\<rparr>))))))))) s 2 (OPR_Assets ExampleWinner)),
       (\<lambda>s. ApplyTransactionBatchesInHolding (WithTransactions [\<lparr>EntryHash = replicate 32 7, Content = []\<rparr>]
        (ParsesAs [\<lparr>Input = \<lparr>Address = AdrA, Amount = 4, Type = PTickerPEG\<rparr>,
            Transfers = [\<lparr>Address = AdrB, Amount = 4\<rparr>], Conversion = None\<rparr>]
          (WithFBlock [\<lparr>FCTInputs = [ExampleIO 100 AdrA], FCTOutputs = [],
            ECOutputs = [ExampleIO 0 (replicate 32 3)]\<rparr>]
            (AddressesAs AdrB (GradesAs \<lparr>Winners = [ExampleWinner]\<rparr>
              (ExamplePegnetd (Fund AdrA pUSD 10 (EmptyTables\<lparr>Holding := [Held 1 (ExampleBatch 1 [ExampleConversion AdrA 10 pUSD PTickerPEG])],
          RateTable := [(1, ExampleRates)]\<rparr>)))))))) False s 2),
       current_block_transfers (WithTransactions [\<lparr>EntryHash = replicate 32 7, Content = []\<rparr>]
        (ParsesAs [\<lparr>Input = \<lparr>Address = AdrA, Amount = 4, Type = PTickerPEG\<rparr>,
            Transfers = [\<lparr>Address = AdrB, Amount = 4\<rparr>], Conversion = None\<rparr>]
          (WithFBlock [\<lparr>FCTInputs = [ExampleIO 100 AdrA], FCTOutputs = [],
            ECOutputs = [ExampleIO 0 (replicate 32 3)]\<rparr>]
            (AddressesAs AdrB (GradesAs \<lparr>Winners = [ExampleWinner]\<rparr>
              (ExamplePegnetd (Fund AdrA pUSD 10 (EmptyTables\<lparr>Holding := [Held 1 (ExampleBatch 1 [ExampleConversion AdrA 10 pUSD PTickerPEG])],
          RateTable := [(1, ExampleRates)]\<rparr>)))))))) (Some \<lparr>ChainID = replicate 32 2, EBlock_Height = 2, KeyMR = [], Entries = [\<lparr>EntryHash = replicate 32 7, Content = []\<rparr>]\<rparr>),
       (\<lambda>s. ApplyFactoidBlock (WithTransactions [\<lparr>EntryHash = replicate 32 7, Content = []\<rparr>]
        (ParsesAs [\<lparr>Input = \<lparr>Address = AdrA, Amount = 4, Type = PTickerPEG\<rparr>,
            Transfers = [\<lparr>Address = AdrB, Amount = 4\<rparr>], Conversion = None\<rparr>]
          (WithFBlock [\<lparr>FCTInputs = [ExampleIO 100 AdrA], FCTOutputs = [],
            ECOutputs = [ExampleIO 0 (replicate 32 3)]\<rparr>]
            (AddressesAs AdrB (GradesAs \<lparr>Winners = [ExampleWinner]\<rparr>
              (ExamplePegnetd (Fund AdrA pUSD 10 (EmptyTables\<lparr>Holding := [Held 1 (ExampleBatch 1 [ExampleConversion AdrA 10 pUSD PTickerPEG])],
          RateTable := [(1, ExampleRates)]\<rparr>)))))))) False s \<lparr>DBlock_Height = 2, EBlocks = [\<lparr>ChainID = replicate 32 2, EBlock_Height = 2, KeyMR = [], Entries = [\<lparr>EntryHash = replicate 32 7, Content = []\<rparr>]\<rparr>]\<rparr>),
       (\<lambda>s. ApplyGradedOPRBlock (WithTransactions [\<lparr>EntryHash = replicate 32 7, Content = []\<rparr>]
        (ParsesAs [\<lparr>Input = \<lparr>Address = AdrA, Amount = 4, Type = PTickerPEG\<rparr>,
            Transfers = [\<lparr>Address = AdrB, Amount = 4\<rparr>], Conversion = None\<rparr>]
          (WithFBlock [\<lparr>FCTInputs = [ExampleIO 100 AdrA], FCTOutputs = [],
            ECOutputs = [ExampleIO 0 (replicate 32 3)]\<rparr>]
            (AddressesAs AdrB (GradesAs \<lparr>Winners = [ExampleWinner]\<rparr>
              (ExamplePegnetd (Fund AdrA pUSD 10 (EmptyTables\<lparr>Holding := [Held 1 (ExampleBatch 1 [ExampleConversion AdrA 10 pUSD PTickerPEG])],
          RateTable := [(1, ExampleRates)]\<rparr>)))))))) s \<lparr>Winners = [ExampleWinner]\<rparr>)]
      (Fund AdrA pUSD 10 (EmptyTables\<lparr>Holding := [Held 1 (ExampleBatch 1 [ExampleConversion AdrA 10 pUSD PTickerPEG])],
          RateTable := [(1, ExampleRates)]\<rparr>))
   \<and> SyncBlock
      (WithTransactions [\<lparr>EntryHash = replicate 32 7, Content = []\<rparr>]
        (ParsesAs [\<lparr>Input = \<lparr>Address = AdrA, Amount = 4, Type = PTickerPEG\<rparr>,
            Transfers = [\<lparr>Address = AdrB, Amount = 4\<rparr>], Conversion = None\<rparr>]
          (WithFBlock [\<lparr>FCTInputs = [ExampleIO 100 AdrA], FCTOutputs = [],
            ECOutputs = [ExampleIO 0 (replicate 32 3)]\<rparr>]
            (AddressesAs AdrB (GradesAs \<lparr>Winners = [ExampleWinner]\<rparr>
              (ExamplePegnetd (Fund AdrA pUSD 10 (EmptyTables\<lparr>Holding := [Held 1 (ExampleBatch 1 [ExampleConversion AdrA 10 pUSD PTickerPEG])],
          RateTable := [(1, ExampleRates)]\<rparr>)))))))) False
      (Fund AdrA pUSD 10 (EmptyTables\<lparr>Holding := [Held 1 (ExampleBatch 1 [ExampleConversion AdrA 10 pUSD PTickerPEG])],
          RateTable := [(1, ExampleRates)]\<rparr>)) 2 =
     (((Fund AdrA pUSD 10 (EmptyTables\<lparr>Holding := [Held 1 (ExampleBatch 1 [ExampleConversion AdrA 10 pUSD PTickerPEG])],
          RateTable := [(1, ExampleRates)]\<rparr>))
        \<lparr>Balances := (\<lambda>key. 0)((AdrA, pUSD) := 0, (AdrA, PTickerPEG) := 0,
           (AdrA, PTickerFCT) := 100, (AdrB, PTickerPEG) := 104),
         Relations :=
          [\<lparr>Row_AddressID = 0, Row_Hash = replicate 32 1, Row_TxIndex = 0,
             Row_IsOutput = False, Row_IsConversion = True\<rparr>,
           \<lparr>Row_AddressID = 0, Row_Hash = replicate 32 7, Row_TxIndex = 0,
             Row_IsOutput = False, Row_IsConversion = False\<rparr>,
           \<lparr>Row_AddressID = 0, Row_Hash = replicate 32 7, Row_TxIndex = 0,
             Row_IsOutput = True, Row_IsConversion = False\<rparr>],
         RateTable := [(1, ExampleRates), (2, ExampleRates)],
         GradeBlocks := [(None, \<lparr>Winners = [ExampleWinner]\<rparr>)],
         Applied :=
          [\<lparr>Applied_Height = 2, Applied_EntryHash = replicate 32 1, Applied_Conversion = True,
             Applied_Txs = 1\<rparr>,
           \<lparr>Applied_Height = 2, Applied_EntryHash = replicate 32 7, Applied_Conversion = False,
             Applied_Txs = 1\<rparr>]\<rparr>), None)
   \<and> SyncBlock
      (WithTransactions [\<lparr>EntryHash = replicate 32 1, Content = []\<rparr>]
        (ParsesAs [ExampleConversion AdrA 5 pUSD PTickerPEG] (GradesAs \<lparr>Winners = []\<rparr> (ExamplePegnetd EmptyTables)))) False EmptyTables 2 =
    in_order
      [store_write (\<lambda>s. InsertGradeBlock (Pegnet (WithTransactions [\<lparr>EntryHash = replicate 32 1, Content = []\<rparr>]
        (ParsesAs [ExampleConversion AdrA 5 pUSD PTickerPEG] (GradesAs \<lparr>Winners = []\<rparr> (ExamplePegnetd EmptyTables))))) s None \<lparr>Winners = []\<rparr>),
       current_block_transfers (WithTransactions [\<lparr>EntryHash = replicate 32 1, Content = []\<rparr>]
        (ParsesAs [ExampleConversion AdrA 5 pUSD PTickerPEG] (GradesAs \<lparr>Winners = []\<rparr> (ExamplePegnetd EmptyTables)))) (Some \<lparr>ChainID = replicate 32 2, EBlock_Height = 2, KeyMR = [], Entries = [\<lparr>EntryHash = replicate 32 1, Content = []\<rparr>]\<rparr>),
       (\<lambda>s. ApplyFactoidBlock (WithTransactions [\<lparr>EntryHash = replicate 32 1, Content = []\<rparr>]
        (ParsesAs [ExampleConversion AdrA 5 pUSD PTickerPEG] (GradesAs \<lparr>Winners = []\<rparr> (ExamplePegnetd EmptyTables)))) False s \<lparr>DBlock_Height = 2, EBlocks = [\<lparr>ChainID = replicate 32 2, EBlock_Height = 2, KeyMR = [], Entries = [\<lparr>EntryHash = replicate 32 1, Content = []\<rparr>]\<rparr>]\<rparr>),
       (\<lambda>s. ApplyGradedOPRBlock (WithTransactions [\<lparr>EntryHash = replicate 32 1, Content = []\<rparr>]
        (ParsesAs [ExampleConversion AdrA 5 pUSD PTickerPEG] (GradesAs \<lparr>Winners = []\<rparr> (ExamplePegnetd EmptyTables)))) s \<lparr>Winners = []\<rparr>)] EmptyTables
   \<and> SyncBlock
      (WithTransactions [\<lparr>EntryHash = replicate 32 1, Content = []\<rparr>]
        (ParsesAs [ExampleConversion AdrA 5 pUSD PTickerPEG] (GradesAs \<lparr>Winners = []\<rparr> (ExamplePegnetd EmptyTables)))) False EmptyTables 2 =
     (EmptyTables\<lparr>Holding := [\<lparr>Held_Batch = ExampleBatch 1 [ExampleConversion AdrA 5 pUSD PTickerPEG], Held_Height = 2, Held_KeyMR = []\<rparr>], GradeBlocks := [(None, \<lparr>Winners = []\<rparr>)]\<rparr>, None)
   \<and> SyncBlock
      (WithTransactions [\<lparr>EntryHash = replicate 32 1, Content = []\<rparr>]
        (ParsesAs [ExampleConversion AdrA 5 pUSD PTickerPEG] (ExamplePegnetd EmptyTables))) False EmptyTables 2 =
    in_order
      [current_block_transfers (WithTransactions [\<lparr>EntryHash = replicate 32 1, Content = []\<rparr>]
        (ParsesAs [ExampleConversion AdrA 5 pUSD PTickerPEG] (ExamplePegnetd EmptyTables))) (Some \<lparr>ChainID = replicate 32 2, EBlock_Height = 2, KeyMR = [], Entries = [\<lparr>EntryHash = replicate 32 1, Content = []\<rparr>]\<rparr>),
       (\<lambda>s. ApplyFactoidBlock (WithTransactions [\<lparr>EntryHash = replicate 32 1, Content = []\<rparr>]
        (ParsesAs [ExampleConversion AdrA 5 pUSD PTickerPEG] (ExamplePegnetd EmptyTables))) False s \<lparr>DBlock_Height = 2, EBlocks = [\<lparr>ChainID = replicate 32 2, EBlock_Height = 2, KeyMR = [], Entries = [\<lparr>EntryHash = replicate 32 1, Content = []\<rparr>]\<rparr>]\<rparr>)] EmptyTables
   \<and> SyncBlock
      (WithTransactions [\<lparr>EntryHash = replicate 32 1, Content = []\<rparr>]
        (ParsesAs [ExampleConversion AdrA 5 pUSD PTickerPEG] (ExamplePegnetd EmptyTables))) False EmptyTables 2 =
     (EmptyTables\<lparr>Holding := [\<lparr>Held_Batch = ExampleBatch 1 [ExampleConversion AdrA 5 pUSD PTickerPEG], Held_Height = 2, Held_KeyMR = []\<rparr>]\<rparr>, None)
   \<and> current_block_transfers
      (WithTransactions [\<lparr>EntryHash = replicate 32 1, Content = []\<rparr>]
        (ParsesAs [ExampleConversion AdrA 5 pUSD PTickerPEG] (ExamplePegnetd EmptyTables))) (Some \<lparr>ChainID = replicate 32 2, EBlock_Height = 2, KeyMR = [], Entries = [\<lparr>EntryHash = replicate 32 1, Content = []\<rparr>]\<rparr>) EmptyTables =
     (EmptyTables\<lparr>Holding := [\<lparr>Held_Batch = ExampleBatch 1 [ExampleConversion AdrA 5 pUSD PTickerPEG], Held_Height = 2, Held_KeyMR = []\<rparr>]\<rparr>, None)"
proof -
  let ?w = "(WithTransactions [\<lparr>EntryHash = replicate 32 7, Content = []\<rparr>]
        (ParsesAs [\<lparr>Input = \<lparr>Address = AdrA, Amount = 4, Type = PTickerPEG\<rparr>,
            Transfers = [\<lparr>Address = AdrB, Amount = 4\<rparr>], Conversion = None\<rparr>]
          (WithFBlock [\<lparr>FCTInputs = [ExampleIO 100 AdrA], FCTOutputs = [],
            ECOutputs = [ExampleIO 0 (replicate 32 3)]\<rparr>]
            (AddressesAs AdrB (GradesAs \<lparr>Winners = [ExampleWinner]\<rparr>
              (ExamplePegnetd (Fund AdrA pUSD 10 (EmptyTables\<lparr>Holding := [Held 1 (ExampleBatch 1 [ExampleConversion AdrA 10 pUSD PTickerPEG])],
          RateTable := [(1, ExampleRates)]\<rparr>))))))))"
  let ?e = "(WithTransactions [\<lparr>EntryHash = replicate 32 1, Content = []\<rparr>]
        (ParsesAs [ExampleConversion AdrA 5 pUSD PTickerPEG] (GradesAs \<lparr>Winners = []\<rparr> (ExamplePegnetd EmptyTables))))"
  let ?n = "(WithTransactions [\<lparr>EntryHash = replicate 32 1, Content = []\<rparr>]
        (ParsesAs [ExampleConversion AdrA 5 pUSD PTickerPEG] (ExamplePegnetd EmptyTables)))"
  let ?tx = "(Fund AdrA pUSD 10 (EmptyTables\<lparr>Holding := [Held 1 (ExampleBatch 1 [ExampleConversion AdrA 10 pUSD PTickerPEG])],
          RateTable := [(1, ExampleRates)]\<rparr>))"
  let ?paid = "\<lparr>ChainID = replicate 32 2, EBlock_Height = 2, KeyMR = [], Entries = [\<lparr>EntryHash = replicate 32 7, Content = []\<rparr>]\<rparr>"
  let ?converted = "\<lparr>ChainID = replicate 32 2, EBlock_Height = 2, KeyMR = [], Entries = [\<lparr>EntryHash = replicate 32 1, Content = []\<rparr>]\<rparr>"
  let ?batch = "ExampleBatch 1 [ExampleConversion AdrA 5 pUSD PTickerPEG]"
  have live: "\<not> isDone False"
    by (simp add: isDone_def)
  have dblock: "DBlock_Get ?w 2 = Inr \<lparr>DBlock_Height = 2, EBlocks = [\<lparr>ChainID = replicate 32 2, EBlock_Height = 2, KeyMR = [], Entries = [\<lparr>EntryHash = replicate 32 7, Content = []\<rparr>]\<rparr>]\<rparr>"
    "DBlock_Get ?e 2 = Inr \<lparr>DBlock_Height = 2, EBlocks = [\<lparr>ChainID = replicate 32 2, EBlock_Height = 2, KeyMR = [], Entries = [\<lparr>EntryHash = replicate 32 1, Content = []\<rparr>]\<rparr>]\<rparr>"
    "DBlock_Get ?n 2 = Inr \<lparr>DBlock_Height = 2, EBlocks = [\<lparr>ChainID = replicate 32 2, EBlock_Height = 2, KeyMR = [], Entries = [\<lparr>EntryHash = replicate 32 1, Content = []\<rparr>]\<rparr>]\<rparr>"
    by (simp_all add: WithTransactions_def AddressesAs_def ref_defs ex_defs)
  have opr: "SyncBlock_fetch ?w (DBlock_EBlock \<lparr>DBlock_Height = 2, EBlocks = [\<lparr>ChainID = replicate 32 2, EBlock_Height = 2, KeyMR = [], Entries = [\<lparr>EntryHash = replicate 32 7, Content = []\<rparr>]\<rparr>]\<rparr> (OPRChain ?w)) = Inr None"
    "SyncBlock_fetch ?e (DBlock_EBlock \<lparr>DBlock_Height = 2, EBlocks = [\<lparr>ChainID = replicate 32 2, EBlock_Height = 2, KeyMR = [], Entries = [\<lparr>EntryHash = replicate 32 1, Content = []\<rparr>]\<rparr>]\<rparr> (OPRChain ?e)) = Inr None"
    "SyncBlock_fetch ?n (DBlock_EBlock \<lparr>DBlock_Height = 2, EBlocks = [\<lparr>ChainID = replicate 32 2, EBlock_Height = 2, KeyMR = [], Entries = [\<lparr>EntryHash = replicate 32 1, Content = []\<rparr>]\<rparr>]\<rparr> (OPRChain ?n)) = Inr None"
    by (simp_all add: SyncBlock_fetch_def DBlock_EBlock_def WithTransactions_def AddressesAs_def
        ref_defs ex_defs)
  have txs: "SyncBlock_fetch ?w (DBlock_EBlock \<lparr>DBlock_Height = 2, EBlocks = [\<lparr>ChainID = replicate 32 2, EBlock_Height = 2, KeyMR = [], Entries = [\<lparr>EntryHash = replicate 32 7, Content = []\<rparr>]\<rparr>]\<rparr> (TransactionChain ?w)) = Inr (Some ?paid)"
    "SyncBlock_fetch ?e (DBlock_EBlock \<lparr>DBlock_Height = 2, EBlocks = [\<lparr>ChainID = replicate 32 2, EBlock_Height = 2, KeyMR = [], Entries = [\<lparr>EntryHash = replicate 32 1, Content = []\<rparr>]\<rparr>]\<rparr> (TransactionChain ?e)) = Inr (Some ?converted)"
    "SyncBlock_fetch ?n (DBlock_EBlock \<lparr>DBlock_Height = 2, EBlocks = [\<lparr>ChainID = replicate 32 2, EBlock_Height = 2, KeyMR = [], Entries = [\<lparr>EntryHash = replicate 32 1, Content = []\<rparr>]\<rparr>]\<rparr> (TransactionChain ?n)) = Inr (Some ?converted)"
    by (simp_all add: SyncBlock_fetch_def DBlock_EBlock_def WithTransactions_def AddressesAs_def
        ref_defs ex_defs)
  have graded: "Grade ?w False None = Inr (Some \<lparr>Winners = [ExampleWinner]\<rparr>)"
    "Grade ?e False None = Inr (Some \<lparr>Winners = []\<rparr>)"
    "Grade ?n False None = Inr None"
    by (simp_all add: WithTransactions_def AddressesAs_def ref_defs ex_defs)
  have enters: "Some ?converted = Some ?converted \<and> Entries ?converted = \<lparr>EntryHash = replicate 32 1, Content = []\<rparr> # [] \<and>
      UnmarshalEntry ?n (NewTransactionBatch \<lparr>EntryHash = replicate 32 1, Content = []\<rparr>) = Inr ?batch \<and> Validate ?n ?batch = None \<and>
      IsReplayTransaction (Pegnet ?n) EmptyTables (Hash ?batch) = Inr False \<and> HasConversions ?batch"
    by (simp add: WithTransactions_def ref_defs ex_defs)
  have winner: "Winners \<lparr>Winners = [ExampleWinner]\<rparr> = ExampleWinner # []"
    by simp
  from SyncBlock_phases_in_order [OF live dblock(1) opr(1) txs(1) graded(1), where tx = ?tx,
      THEN conjunct2, THEN conjunct2, THEN conjunct1, THEN spec, THEN spec, THEN spec, THEN mp,
      OF conjI, OF refl winner]
  have first: "SyncBlock ?w False ?tx 2 =
    in_order
      [store_write (\<lambda>s. InsertGradeBlock (Pegnet ?w) s None \<lparr>Winners = [ExampleWinner]\<rparr>),
       store_write (\<lambda>s. InsertRate (Pegnet ?w) s 2 (OPR_Assets ExampleWinner)),
       (\<lambda>s. ApplyTransactionBatchesInHolding ?w False s 2),
       current_block_transfers ?w (Some \<lparr>ChainID = replicate 32 2, EBlock_Height = 2, KeyMR = [], Entries = [\<lparr>EntryHash = replicate 32 7, Content = []\<rparr>]\<rparr>),
       (\<lambda>s. ApplyFactoidBlock ?w False s \<lparr>DBlock_Height = 2, EBlocks = [\<lparr>ChainID = replicate 32 2, EBlock_Height = 2, KeyMR = [], Entries = [\<lparr>EntryHash = replicate 32 7, Content = []\<rparr>]\<rparr>]\<rparr>),
       (\<lambda>s. ApplyGradedOPRBlock ?w s \<lparr>Winners = [ExampleWinner]\<rparr>)] ?tx" .
  from SyncBlock_phases_in_order [OF live dblock(2) opr(2) txs(2) graded(2), where tx = EmptyTables,
      THEN conjunct2, THEN conjunct1, THEN spec, THEN mp, of "\<lparr>Winners = []\<rparr>"]
  have second: "SyncBlock ?e False EmptyTables 2 =
    in_order
      [store_write (\<lambda>s. InsertGradeBlock (Pegnet ?e) s None \<lparr>Winners = []\<rparr>),
       current_block_transfers ?e (Some \<lparr>ChainID = replicate 32 2, EBlock_Height = 2, KeyMR = [], Entries = [\<lparr>EntryHash = replicate 32 1, Content = []\<rparr>]\<rparr>),
       (\<lambda>s. ApplyFactoidBlock ?e False s \<lparr>DBlock_Height = 2, EBlocks = [\<lparr>ChainID = replicate 32 2, EBlock_Height = 2, KeyMR = [], Entries = [\<lparr>EntryHash = replicate 32 1, Content = []\<rparr>]\<rparr>]\<rparr>),
       (\<lambda>s. ApplyGradedOPRBlock ?e s \<lparr>Winners = []\<rparr>)] EmptyTables"
    by simp
  from SyncBlock_phases_in_order [OF live dblock(3) opr(3) txs(3) graded(3), where tx = EmptyTables,
      THEN conjunct1, THEN mp]
  have third: "SyncBlock ?n False EmptyTables 2 =
    in_order
      [current_block_transfers ?n (Some \<lparr>ChainID = replicate 32 2, EBlock_Height = 2, KeyMR = [], Entries = [\<lparr>EntryHash = replicate 32 1, Content = []\<rparr>]\<rparr>),
       (\<lambda>s. ApplyFactoidBlock ?n False s \<lparr>DBlock_Height = 2, EBlocks = [\<lparr>ChainID = replicate 32 2, EBlock_Height = 2, KeyMR = [], Entries = [\<lparr>EntryHash = replicate 32 1, Content = []\<rparr>]\<rparr>]\<rparr>)] EmptyTables"
    by simp
  from SyncBlock_phases_in_order [OF live dblock(3) opr(3) txs(3) graded(3),
      where eblock = ?converted and entry = "\<lparr>EntryHash = replicate 32 1, Content = []\<rparr>" and entries = "[]" and txBatch = ?batch
        and s = EmptyTables,
      THEN conjunct2, THEN conjunct2, THEN conjunct2, THEN mp, OF enters]
  have fourth: "current_block_transfers ?n (Some ?converted) EmptyTables =
      (EmptyTables\<lparr>Holding := [\<lparr>Held_Batch = ExampleBatch 1 [ExampleConversion AdrA 5 pUSD PTickerPEG], Held_Height = 2, Held_KeyMR = []\<rparr>]\<rparr>, None)"
    by (simp add: WithTransactions_def ref_defs ex_defs)
  have every_phase: "SyncBlock ?w False ?tx 2 =
     (((Fund AdrA pUSD 10 (EmptyTables\<lparr>Holding := [Held 1 (ExampleBatch 1 [ExampleConversion AdrA 10 pUSD PTickerPEG])],
          RateTable := [(1, ExampleRates)]\<rparr>))
        \<lparr>Balances := (\<lambda>key. 0)((AdrA, pUSD) := 0, (AdrA, PTickerPEG) := 0,
           (AdrA, PTickerFCT) := 100, (AdrB, PTickerPEG) := 104),
         Relations :=
          [\<lparr>Row_AddressID = 0, Row_Hash = replicate 32 1, Row_TxIndex = 0,
             Row_IsOutput = False, Row_IsConversion = True\<rparr>,
           \<lparr>Row_AddressID = 0, Row_Hash = replicate 32 7, Row_TxIndex = 0,
             Row_IsOutput = False, Row_IsConversion = False\<rparr>,
           \<lparr>Row_AddressID = 0, Row_Hash = replicate 32 7, Row_TxIndex = 0,
             Row_IsOutput = True, Row_IsConversion = False\<rparr>],
         RateTable := [(1, ExampleRates), (2, ExampleRates)],
         GradeBlocks := [(None, \<lparr>Winners = [ExampleWinner]\<rparr>)],
         Applied :=
          [\<lparr>Applied_Height = 2, Applied_EntryHash = replicate 32 1, Applied_Conversion = True,
             Applied_Txs = 1\<rparr>,
           \<lparr>Applied_Height = 2, Applied_EntryHash = replicate 32 7, Applied_Conversion = False,
             Applied_Txs = 1\<rparr>]\<rparr>), None)"
    by (simp add: pass_defs WithTransactions_def AddressesAs_def code_defs ref_defs ex_defs
        rate_of_def heights_step heights_done ApplyFactoidBlock_register_def
        ApplyFactoidBlock_credit_def copy_bytes_def ApplyGradedOPRBlock_winner_def)
  have no_winner: "SyncBlock ?e False EmptyTables 2 =
     (EmptyTables\<lparr>Holding := [\<lparr>Held_Batch = ExampleBatch 1 [ExampleConversion AdrA 5 pUSD PTickerPEG], Held_Height = 2, Held_KeyMR = []\<rparr>], GradeBlocks := [(None, \<lparr>Winners = []\<rparr>)]\<rparr>, None)"
    "SyncBlock ?n False EmptyTables 2 = (EmptyTables\<lparr>Holding := [\<lparr>Held_Batch = ExampleBatch 1 [ExampleConversion AdrA 5 pUSD PTickerPEG], Held_Height = 2, Held_KeyMR = []\<rparr>]\<rparr>, None)"
    by (simp_all add: pass_defs WithTransactions_def code_defs ref_defs ex_defs
        ApplyGradedOPRBlock_winner_def)
  from first every_phase second no_winner(1) third no_winner(2) fourth show ?thesis
    by (intro conjI)
qed

text \<open>
  C7. \<^verbatim>\<open>ApplyFactoidBlock\<close> credits a factoid transaction as a cross-chain burn if and only
  if it has exactly one FCT input, exactly one entry-credit output and no factoid
  output, the entry-credit output pays the \<^verbatim>\<open>BurnRCD\<close> address and its amount is 0; for
  each such burn it credits the input address, copied byte for byte, with the input's
  amount of pFCT. For every store and collaborator: when the context lives, the factoid
  block and each of its transactions are fetched, and the address pointers of their
  inputs and entry-credit outputs are set, the call is exactly the credits of pFCT, in
  the block's order, for the transactions that are burns.
\<close>

theorem ApplyFactoidBlock_credits_exactly_the_burns:
  assumes live: "\<not> isDone ctx"
    and fblock: "FBlock_Get d (DBlock_Height dblock) = Inr fblock"
    and fetched: "map (FactoidTransaction_Get d) (FBlock_Transactions fblock) = map Inr txs"
    and pop: "list_all (\<lambda>tx. list_all populated (ECOutputs tx) \<and> list_all populated (FCTInputs tx)) txs"
  shows "ApplyFactoidBlock d ctx tx dblock =
    range_loop (credit_pFCT d) 0 (concat (map (burn_credit (BurnRCD d)) txs)) tx"
proof -
  have outs: "list_all (\<lambda>tx. list_all populated (ECOutputs tx)) txs"
    using pop by (simp add: list_all_iff)
  from register_all [OF live fetched outs, of 0 0 "[]"] obtain burned1 where
    reg: "range_loop (ApplyFactoidBlock_register d ctx) 0 (FBlock_Transactions fblock) (0, []) =
      ((burned1, map (\<lambda>tx. hd (FCTInputs tx)) (filter (is_burn (BurnRCD d)) txs)), None)"
    by auto
  let ?burns = "map (\<lambda>tx. hd (FCTInputs tx)) (filter (is_burn (BurnRCD d)) txs)"
  have inputs: "list_all populated ?burns"
    using pop by (induction txs) (auto simp add: is_burn_def length_Suc_conv)
  have same: "map (\<lambda>burn. (case IO_Address burn of None \<Rightarrow> [] | Some adr \<Rightarrow> adr, IO_Amount burn)) ?burns =
      concat (map (burn_credit (BurnRCD d)) txs)"
    using pop
    by (induction txs) (auto simp add: burn_credit_def is_burn_def length_Suc_conv populated_def
        split: option.splits)
  show ?thesis
    using fblock reg credit_all [OF inputs, of d 0 tx] same
    by (simp add: ApplyFactoidBlock_def)
qed


text \<open>
  An instance: of four transactions, one is a burn of 100 by address A; one buys entry
  credits (amount 5), one pays another address than \<^verbatim>\<open>BurnRCD\<close>, one has a factoid
  output. Address A ends with 100 pFCT and nothing else changes.
\<close>

theorem ApplyFactoidBlock_credits_exactly_the_burns_witness:
  "ApplyFactoidBlock
      (WithFBlock
        [\<lparr>FCTInputs = [ExampleIO 100 AdrA], FCTOutputs = [], ECOutputs = [ExampleIO 0 (replicate 32 3)]\<rparr>,
         \<lparr>FCTInputs = [ExampleIO 40 AdrA], FCTOutputs = [], ECOutputs = [ExampleIO 5 (replicate 32 3)]\<rparr>,
         \<lparr>FCTInputs = [ExampleIO 30 AdrB], FCTOutputs = [], ECOutputs = [ExampleIO 0 AdrA]\<rparr>,
         \<lparr>FCTInputs = [ExampleIO 20 AdrB], FCTOutputs = [ExampleIO 20 AdrA],
           ECOutputs = [ExampleIO 0 (replicate 32 3)]\<rparr>]
        (ExamplePegnetd EmptyTables))
      False EmptyTables \<lparr>DBlock_Height = 2, EBlocks = []\<rparr> =
    (EmptyTables\<lparr>Balances := (\<lambda>key. 0)((AdrA, PTickerFCT) := 100)\<rparr>, None)"
proof -
  let ?txs = "[\<lparr>FCTInputs = [ExampleIO 100 AdrA], FCTOutputs = [], ECOutputs = [ExampleIO 0 (replicate 32 3)]\<rparr>,
         \<lparr>FCTInputs = [ExampleIO 40 AdrA], FCTOutputs = [], ECOutputs = [ExampleIO 5 (replicate 32 3)]\<rparr>,
         \<lparr>FCTInputs = [ExampleIO 30 AdrB], FCTOutputs = [], ECOutputs = [ExampleIO 0 AdrA]\<rparr>,
         \<lparr>FCTInputs = [ExampleIO 20 AdrB], FCTOutputs = [ExampleIO 20 AdrA],
           ECOutputs = [ExampleIO 0 (replicate 32 3)]\<rparr>]"
  let ?d = "WithFBlock ?txs (ExamplePegnetd EmptyTables)"
  let ?dblock = "\<lparr>DBlock_Height = 2, EBlocks = []\<rparr>"
  have live: "\<not> isDone False"
    by (simp add: isDone_def)
  have fblock: "FBlock_Get ?d (DBlock_Height ?dblock) =
      Inr \<lparr>FBlock_Height = 2, FBlock_Transactions = ?txs\<rparr>"
    by (simp add: WithFBlock_def)
  have fetched: "map (FactoidTransaction_Get ?d)
      (FBlock_Transactions \<lparr>FBlock_Height = 2, FBlock_Transactions = ?txs\<rparr>) = map Inr ?txs"
    by (simp add: WithFBlock_def ref_defs)
  have pop: "list_all (\<lambda>tx. list_all populated (ECOutputs tx) \<and> list_all populated (FCTInputs tx))
      ?txs"
    by (simp add: populated_def ExampleIO_def ex_defs)
  have credits: "concat (map (burn_credit (BurnRCD ?d)) ?txs) = [(AdrA, 100)]"
    by (simp add: burn_credit_def is_burn_def WithFBlock_def ExamplePegnetd_def ExampleIO_def
        ex_defs)
  have credited: "range_loop (credit_pFCT ?d) 0 [(AdrA, 100)] EmptyTables =
      (EmptyTables\<lparr>Balances := (\<lambda>key. 0)((AdrA, PTickerFCT) := 100)\<rparr>, None)"
    by (simp add: credit_pFCT_def WithFBlock_def ref_defs ex_defs)
  from ApplyFactoidBlock_credits_exactly_the_burns [OF live fblock fetched pop, of EmptyTables]
  show ?thesis
    by (simp only: credits credited)
qed

text \<open>
  C9. The synced cursor is monotonic. For one pass of the body of the sync loop, entered
  with the cursor below the tip and a transaction begun: when \<^verbatim>\<open>SyncBlock\<close>,
  \<^verbatim>\<open>InsertSynced\<close> and the commit succeed, the cursor is the old one plus one, which is
  greater, \<^verbatim>\<open>InsertSynced\<close> was given that cursor on the content that \<^verbatim>\<open>SyncBlock\<close>
  left, in the transaction that is then committed, and the persisted height (any
  reading \<open>persisted\<close> of the content that \<^verbatim>\<open>InsertSynced\<close> sets to the cursor it is
  given), if it agreed with the cursor before, is greater after the commit. When
  \<^verbatim>\<open>SyncBlock\<close> fails, or \<^verbatim>\<open>InsertSynced\<close> fails, or the commit fails, \<^verbatim>\<open>Rollback\<close> is
  called on the transaction, nothing is committed, and the receiver leaves the pass with
  the cursor it had (the process ends on the fatal log line when the rollback fails).
\<close>

theorem DBlockSync_pass_cursor:
  assumes behind: "Synced (Sync d) < tip"
    and live: "\<not> isDone ctx"
    and begun: "BeginTx d = Inr tx"
    and persists: "\<forall>s sync s1. InsertSynced (Pegnet d) s sync = Inr s1 \<longrightarrow> persisted s1 = Synced sync"
    and rehydrated: "persisted tx = Synced (Sync d)"
  shows "(\<forall>tx1 tx2. SyncBlock d ctx tx (Synced (Sync d) + 1) = (tx1, None) \<and>
          InsertSynced (Pegnet d) tx1 ((Sync d)\<lparr>Synced := Synced (Sync d) + 1\<rparr>) = Inr tx2 \<and>
          Commit d tx2 = None \<longrightarrow>
          DBlockSync_pass d ctx = NextHeight (Synced_incr d) (Some tx2) \<and>
          Synced (Sync (Synced_incr d)) = Synced (Sync d) + 1 \<and>
          Synced (Sync d) < Synced (Sync (Synced_incr d)) \<and>
          persisted tx2 = Synced (Sync (Synced_incr d)) \<and>
          persisted tx < persisted tx2)
    \<and> (\<forall>tx1 err. SyncBlock d ctx tx (Synced (Sync d) + 1) = (tx1, Some err) \<longrightarrow>
          DBlockSync_pass d ctx =
            (case Rollback d tx1 of None \<Rightarrow> ContinueOuterSyncLoop d | Some err1 \<Rightarrow> LogFatal d))
    \<and> (\<forall>tx1 err. SyncBlock d ctx tx (Synced (Sync d) + 1) = (tx1, None) \<and>
          InsertSynced (Pegnet d) tx1 ((Sync d)\<lparr>Synced := Synced (Sync d) + 1\<rparr>) = Inl err \<longrightarrow>
          DBlockSync_pass d ctx =
            (case Rollback d tx1 of None \<Rightarrow> ContinueOuterSyncLoop d | Some err1 \<Rightarrow> LogFatal d))
    \<and> (\<forall>tx1 tx2 err. SyncBlock d ctx tx (Synced (Sync d) + 1) = (tx1, None) \<and>
          InsertSynced (Pegnet d) tx1 ((Sync d)\<lparr>Synced := Synced (Sync d) + 1\<rparr>) = Inr tx2 \<and>
          Commit d tx2 = Some err \<longrightarrow>
          DBlockSync_pass d ctx =
            (case Rollback d tx2 of None \<Rightarrow> NextHeight d None | Some err1 \<Rightarrow> LogFatal d))"
proof -
  have restored: "Synced_decr (Synced_incr d) = d"
    by (simp add: Synced_decr_def Synced_incr_def)
  have peg: "Pegnet (Synced_incr d) = Pegnet d"
    and sync: "Sync (Synced_incr d) = (Sync d)\<lparr>Synced := Synced (Sync d) + 1\<rparr>"
    by (simp_all add: Synced_incr_def)
  have "unat (Synced (Sync d)) < unat tip"
    using behind by (simp add: word_less_nat_alt)
  moreover have "unat tip < 2 ^ 32"
    using unsigned_less [of tip] by simp
  ultimately have "unat (Synced (Sync d)) + 1 < 2 ^ 32"
    by simp
  then have "unat (Synced (Sync d) + 1) = Suc (unat (Synced (Sync d)))"
    by (simp add: unat_word_ariths)
  then have up: "Synced (Sync d) < Synced (Sync d) + 1"
    by (simp add: word_less_nat_alt)
  have written: "persisted tx2 = Synced (Sync d) + 1"
    if "InsertSynced (Pegnet d) tx1 ((Sync d)\<lparr>Synced := Synced (Sync d) + 1\<rparr>) = Inr tx2"
    for tx1 tx2
    using persists that by fastforce
  show ?thesis
    unfolding DBlockSync_pass_def restored peg sync
    using live begun up rehydrated written
    by auto
qed

text \<open>
  Two instances on the reference store, at the first height of an empty ledger with
  the tip at 5: the pass commits the content with synced height 1 and leaves the cursor
  at 1; with a commit that fails, the pass rolls back and leaves the cursor at 0.
\<close>

theorem DBlockSync_pass_cursor_witness:
  "DBlockSync_pass (ExamplePegnetd EmptyTables) False =
      NextHeight (Synced_incr (ExamplePegnetd EmptyTables)) (Some (EmptyTables\<lparr>SyncedHeight := 1\<rparr>))
   \<and> Synced (Sync (Synced_incr (ExamplePegnetd EmptyTables))) = 1
   \<and> SyncedHeight EmptyTables < SyncedHeight (EmptyTables\<lparr>SyncedHeight := 1\<rparr>)
   \<and> DBlockSync_pass ((ExamplePegnetd EmptyTables)\<lparr>Commit := (\<lambda>tx. Some (Fault ''commit failed''))\<rparr>)
        False =
      NextHeight ((ExamplePegnetd EmptyTables)\<lparr>Commit := (\<lambda>tx. Some (Fault ''commit failed''))\<rparr>)
        None
   \<and> Synced (Sync ((ExamplePegnetd EmptyTables)
        \<lparr>Commit := (\<lambda>tx. Some (Fault ''commit failed''))\<rparr>)) = 0"
proof -
  let ?d = "ExamplePegnetd EmptyTables"
  let ?f = "(ExamplePegnetd EmptyTables)\<lparr>Commit := (\<lambda>tx. Some (Fault ''commit failed''))\<rparr>"
  let ?committed = "EmptyTables\<lparr>SyncedHeight := 1\<rparr>"
  have behind: "Synced (Sync ?d) < 5" "Synced (Sync ?f) < 5"
    by (simp_all add: ExamplePegnetd_def EmptyTables_def)
  have live: "\<not> isDone False"
    by (simp add: isDone_def)
  have begun: "BeginTx ?d = Inr EmptyTables" "BeginTx ?f = Inr EmptyTables"
    by (simp_all add: ExamplePegnetd_def)
  have persists:
    "\<forall>s sync s1. InsertSynced (Pegnet ?d) s sync = Inr s1 \<longrightarrow> SyncedHeight s1 = Synced sync"
    "\<forall>s sync s1. InsertSynced (Pegnet ?f) s sync = Inr s1 \<longrightarrow> SyncedHeight s1 = Synced sync"
    by (auto simp add: ref_defs)
  have rehydrated: "SyncedHeight EmptyTables = Synced (Sync ?d)"
    "SyncedHeight EmptyTables = Synced (Sync ?f)"
    by (simp_all add: ExamplePegnetd_def)
  have cursor: "Synced (Sync ?d) = 0" "Synced (Sync ?f) = 0"
    by (simp_all add: ExamplePegnetd_def EmptyTables_def)
  have block: "SyncBlock ?d False EmptyTables (Synced (Sync ?d) + 1) = (EmptyTables, None)"
    "SyncBlock ?f False EmptyTables (Synced (Sync ?f) + 1) = (EmptyTables, None)"
    by (simp_all add: SyncBlock_def SyncBlock_fetch_def DBlock_EBlock_def SyncBlock_grading_def
        SyncBlock_apply_def ApplyFactoidBlock_def ExamplePegnetd_def isDone_def)
  have synced:
    "InsertSynced (Pegnet ?d) EmptyTables ((Sync ?d)\<lparr>Synced := Synced (Sync ?d) + 1\<rparr>) =
      Inr ?committed"
    "InsertSynced (Pegnet ?f) EmptyTables ((Sync ?f)\<lparr>Synced := Synced (Sync ?f) + 1\<rparr>) =
      Inr ?committed"
    by (simp_all add: ref_defs EmptyTables_def)
  have commit: "Commit ?d ?committed = None" "Commit ?f ?committed = Some (Fault ''commit failed'')"
    "Rollback ?f ?committed = None"
    by (simp_all add: ExamplePegnetd_def)
  note good = DBlockSync_pass_cursor [OF behind(1) live begun(1) persists(1) rehydrated(1),
    THEN conjunct1, THEN spec, THEN spec, THEN mp, OF conjI [OF block(1) conjI [OF synced(1) commit(1)]]]
  note bad = DBlockSync_pass_cursor [OF behind(2) live begun(2) persists(2) rehydrated(2),
    THEN conjunct2, THEN conjunct2, THEN conjunct2, THEN spec, THEN spec, THEN spec, THEN mp,
    OF conjI [OF block(2) conjI [OF synced(2) commit(2)]]]
  from good bad commit(3) cursor show ?thesis
    by simp
qed


text \<open>
  C2. The claim: a batch with a conversion is only inserted into holding at its entry
  height, is never executed in the block it entered, is applied at the earliest later
  height that recorded a rate epoch, and the drain at a height examines exactly the
  entered heights from the previous rate epoch up to that height, excluded. The last
  part fails at line 282-284, by the early return of C1: a drain that returns nil there
  has not read the heights after the one it stopped at. The instance: rate epochs at
  heights 1 and 3, a conversion of 10 pUSD by A held at height 1 and one by B held at
  height 2, on a store whose credits fail. The window of the drain at height 3 is the
  heights 1 and 2 and the store has one batch at each; the drain returns nil with the
  debit of A and its relation row only; the loop over the batches of height 2, had it
  run, debits B and writes its row; and \<^verbatim>\<open>SyncBlock\<close> at height 3 returns no error.
\<close>

theorem drain_leaves_window_height_unread:
  "SelectMostRecentRatesBeforeHeight (Pegnet
      (GradesAs \<lparr>Winners = [ExampleWinner\<lparr>OPR_Height := 3\<rparr>]\<rparr>
        (FaultyCredit (ExamplePegnetd
          (Fund AdrA pUSD 10 (Fund AdrB pUSD 10 (EmptyTables\<lparr>Holding :=
          [Held 1 (ExampleBatch 1 [ExampleConversion AdrA 10 pUSD PTickerPEG]),
           Held 2 (ExampleBatch 2 [ExampleConversion AdrB 10 pUSD PTickerPEG])],
          RateTable := [(1, ExampleRates)]\<rparr>)))))))
      ((Fund AdrA pUSD 10 (Fund AdrB pUSD 10 (EmptyTables\<lparr>Holding :=
          [Held 1 (ExampleBatch 1 [ExampleConversion AdrA 10 pUSD PTickerPEG]),
           Held 2 (ExampleBatch 2 [ExampleConversion AdrB 10 pUSD PTickerPEG])],
          RateTable := [(1, ExampleRates)]\<rparr>)))
        \<lparr>RateTable := [(1, ExampleRates), (3, ExampleRates)],
         GradeBlocks := [(None, \<lparr>Winners = [ExampleWinner\<lparr>OPR_Height := 3\<rparr>]\<rparr>)]\<rparr>) 3 = Inr (Some ExampleRates, 1)
   \<and> window 1 3 = [1, 2]
   \<and> SelectTransactionBatchesInHoldingAtHeight (Pegnet
      (GradesAs \<lparr>Winners = [ExampleWinner\<lparr>OPR_Height := 3\<rparr>]\<rparr>
        (FaultyCredit (ExamplePegnetd
          (Fund AdrA pUSD 10 (Fund AdrB pUSD 10 (EmptyTables\<lparr>Holding :=
          [Held 1 (ExampleBatch 1 [ExampleConversion AdrA 10 pUSD PTickerPEG]),
           Held 2 (ExampleBatch 2 [ExampleConversion AdrB 10 pUSD PTickerPEG])],
          RateTable := [(1, ExampleRates)]\<rparr>))))))) 1 =
     Inr [ExampleBatch 1 [ExampleConversion AdrA 10 pUSD PTickerPEG]]
   \<and> SelectTransactionBatchesInHoldingAtHeight (Pegnet
      (GradesAs \<lparr>Winners = [ExampleWinner\<lparr>OPR_Height := 3\<rparr>]\<rparr>
        (FaultyCredit (ExamplePegnetd
          (Fund AdrA pUSD 10 (Fund AdrB pUSD 10 (EmptyTables\<lparr>Holding :=
          [Held 1 (ExampleBatch 1 [ExampleConversion AdrA 10 pUSD PTickerPEG]),
           Held 2 (ExampleBatch 2 [ExampleConversion AdrB 10 pUSD PTickerPEG])],
          RateTable := [(1, ExampleRates)]\<rparr>))))))) 2 =
     Inr [ExampleBatch 2 [ExampleConversion AdrB 10 pUSD PTickerPEG]]
   \<and> ApplyTransactionBatchesInHolding
      (GradesAs \<lparr>Winners = [ExampleWinner\<lparr>OPR_Height := 3\<rparr>]\<rparr>
        (FaultyCredit (ExamplePegnetd
          (Fund AdrA pUSD 10 (Fund AdrB pUSD 10 (EmptyTables\<lparr>Holding :=
          [Held 1 (ExampleBatch 1 [ExampleConversion AdrA 10 pUSD PTickerPEG]),
           Held 2 (ExampleBatch 2 [ExampleConversion AdrB 10 pUSD PTickerPEG])],
          RateTable := [(1, ExampleRates)]\<rparr>)))))) False
      ((Fund AdrA pUSD 10 (Fund AdrB pUSD 10 (EmptyTables\<lparr>Holding :=
          [Held 1 (ExampleBatch 1 [ExampleConversion AdrA 10 pUSD PTickerPEG]),
           Held 2 (ExampleBatch 2 [ExampleConversion AdrB 10 pUSD PTickerPEG])],
          RateTable := [(1, ExampleRates)]\<rparr>)))
        \<lparr>RateTable := [(1, ExampleRates), (3, ExampleRates)],
         GradeBlocks := [(None, \<lparr>Winners = [ExampleWinner\<lparr>OPR_Height := 3\<rparr>]\<rparr>)]\<rparr>) 3 =
     (((Fund AdrA pUSD 10 (Fund AdrB pUSD 10 (EmptyTables\<lparr>Holding :=
          [Held 1 (ExampleBatch 1 [ExampleConversion AdrA 10 pUSD PTickerPEG]),
           Held 2 (ExampleBatch 2 [ExampleConversion AdrB 10 pUSD PTickerPEG])],
          RateTable := [(1, ExampleRates)]\<rparr>)))
        \<lparr>Balances := (\<lambda>key. 0)((AdrB, pUSD) := 10, (AdrA, pUSD) := 0),
         Relations := [\<lparr>Row_AddressID = 0, Row_Hash = replicate 32 1, Row_TxIndex = 0,
             Row_IsOutput = False, Row_IsConversion = True\<rparr>],
         RateTable := [(1, ExampleRates), (3, ExampleRates)],
         GradeBlocks := [(None, \<lparr>Winners = [ExampleWinner\<lparr>OPR_Height := 3\<rparr>]\<rparr>)]\<rparr>), None)
   \<and> range_loop (ApplyTransactionBatchesInHolding_batch
      (GradesAs \<lparr>Winners = [ExampleWinner\<lparr>OPR_Height := 3\<rparr>]\<rparr>
        (FaultyCredit (ExamplePegnetd
          (Fund AdrA pUSD 10 (Fund AdrB pUSD 10 (EmptyTables\<lparr>Holding :=
          [Held 1 (ExampleBatch 1 [ExampleConversion AdrA 10 pUSD PTickerPEG]),
           Held 2 (ExampleBatch 2 [ExampleConversion AdrB 10 pUSD PTickerPEG])],
          RateTable := [(1, ExampleRates)]\<rparr>)))))) (Some ExampleRates) 3) 0
      [ExampleBatch 2 [ExampleConversion AdrB 10 pUSD PTickerPEG]]
      ((Fund AdrA pUSD 10 (Fund AdrB pUSD 10 (EmptyTables\<lparr>Holding :=
          [Held 1 (ExampleBatch 1 [ExampleConversion AdrA 10 pUSD PTickerPEG]),
           Held 2 (ExampleBatch 2 [ExampleConversion AdrB 10 pUSD PTickerPEG])],
          RateTable := [(1, ExampleRates)]\<rparr>)))
        \<lparr>Balances := (\<lambda>key. 0)((AdrB, pUSD) := 10, (AdrA, pUSD) := 0),
         Relations := [\<lparr>Row_AddressID = 0, Row_Hash = replicate 32 1, Row_TxIndex = 0,
             Row_IsOutput = False, Row_IsConversion = True\<rparr>],
         RateTable := [(1, ExampleRates), (3, ExampleRates)],
         GradeBlocks := [(None, \<lparr>Winners = [ExampleWinner\<lparr>OPR_Height := 3\<rparr>]\<rparr>)]\<rparr>) =
     (((Fund AdrA pUSD 10 (Fund AdrB pUSD 10 (EmptyTables\<lparr>Holding :=
          [Held 1 (ExampleBatch 1 [ExampleConversion AdrA 10 pUSD PTickerPEG]),
           Held 2 (ExampleBatch 2 [ExampleConversion AdrB 10 pUSD PTickerPEG])],
          RateTable := [(1, ExampleRates)]\<rparr>)))
        \<lparr>Balances := (\<lambda>key. 0)((AdrA, pUSD) := 0, (AdrB, pUSD) := 0),
         Relations := [\<lparr>Row_AddressID = 0, Row_Hash = replicate 32 1, Row_TxIndex = 0,
             Row_IsOutput = False, Row_IsConversion = True\<rparr>,
           \<lparr>Row_AddressID = 0, Row_Hash = replicate 32 2, Row_TxIndex = 0,
             Row_IsOutput = False, Row_IsConversion = True\<rparr>],
         RateTable := [(1, ExampleRates), (3, ExampleRates)],
         GradeBlocks := [(None, \<lparr>Winners = [ExampleWinner\<lparr>OPR_Height := 3\<rparr>]\<rparr>)]\<rparr>), Some None)
   \<and> SyncBlock
      (GradesAs \<lparr>Winners = [ExampleWinner\<lparr>OPR_Height := 3\<rparr>]\<rparr>
        (FaultyCredit (ExamplePegnetd
          (Fund AdrA pUSD 10 (Fund AdrB pUSD 10 (EmptyTables\<lparr>Holding :=
          [Held 1 (ExampleBatch 1 [ExampleConversion AdrA 10 pUSD PTickerPEG]),
           Held 2 (ExampleBatch 2 [ExampleConversion AdrB 10 pUSD PTickerPEG])],
          RateTable := [(1, ExampleRates)]\<rparr>)))))) False
      (Fund AdrA pUSD 10 (Fund AdrB pUSD 10 (EmptyTables\<lparr>Holding :=
          [Held 1 (ExampleBatch 1 [ExampleConversion AdrA 10 pUSD PTickerPEG]),
           Held 2 (ExampleBatch 2 [ExampleConversion AdrB 10 pUSD PTickerPEG])],
          RateTable := [(1, ExampleRates)]\<rparr>))) 3 =
     (((Fund AdrA pUSD 10 (Fund AdrB pUSD 10 (EmptyTables\<lparr>Holding :=
          [Held 1 (ExampleBatch 1 [ExampleConversion AdrA 10 pUSD PTickerPEG]),
           Held 2 (ExampleBatch 2 [ExampleConversion AdrB 10 pUSD PTickerPEG])],
          RateTable := [(1, ExampleRates)]\<rparr>)))
        \<lparr>Balances := (\<lambda>key. 0)((AdrB, pUSD) := 10, (AdrA, pUSD) := 0),
         Relations := [\<lparr>Row_AddressID = 0, Row_Hash = replicate 32 1, Row_TxIndex = 0,
             Row_IsOutput = False, Row_IsConversion = True\<rparr>],
         RateTable := [(1, ExampleRates), (3, ExampleRates)],
         GradeBlocks := [(None, \<lparr>Winners = [ExampleWinner\<lparr>OPR_Height := 3\<rparr>]\<rparr>)]\<rparr>), None)"
  by (simp add: pass_defs code_defs ref_defs ex_defs rate_of_def heights_step heights_done
      ApplyGradedOPRBlock_winner_def window_def upt_rec)

section \<open>Lemmas on the reference store\<close>

lemma OnRefStore_simps [simp]:
  "Pegnet (OnRefStore adrID db d) = RefPegnet adrID db"
  "TracefTxApplied (OnRefStore adrID db d) = Ref_TracefTxApplied"
  "BeginTx (OnRefStore adrID db d) = Inr db"
  "Validate (OnRefStore adrID db d) = Validate d"
  "UnmarshalEntry (OnRefStore adrID db d) = UnmarshalEntry d"
  "Sync (OnRefStore adrID db d) = Sync d"
  by (simp_all add: OnRefStore_def)

lemma Ref_store_simps [simp]:
  "SubFromBalance (RefPegnet adrID db) = Ref_SubFromBalance adrID"
  "AddToBalance (RefPegnet adrID db) = Ref_AddToBalance adrID"
  "InsertTransactionRelation (RefPegnet adrID db) = Ref_InsertTransactionRelation"
  "IsReplayTransaction (RefPegnet adrID db) = Ref_IsReplayTransaction"
  "InsertTransactionBatchHolding (RefPegnet adrID db) = Ref_InsertTransactionBatchHolding"
  "SelectTransactionBatchesInHoldingAtHeight (RefPegnet adrID db) =
    Ref_SelectTransactionBatchesInHoldingAtHeight db"
  "SelectMostRecentRatesBeforeHeight (RefPegnet adrID db) = Ref_SelectMostRecentRatesBeforeHeight"
  "SelectPendingRates (RefPegnet adrID db) = Ref_SelectPendingRates"
  "InsertRate (RefPegnet adrID db) = Ref_InsertRate"
  "InsertGradeBlock (RefPegnet adrID db) = Ref_InsertGradeBlock"
  "InsertSynced (RefPegnet adrID db) = Ref_InsertSynced"
  by (simp_all add: RefPegnet_def)






















section \<open>The claims on the ledger history\<close>



end
